theory Spec2Isabelle
  imports Complex_Main "HOL-Library.Word"
begin

section \<open>Platform: integers, doubles, clock, PWM outputs and the random source\<close>

text \<open>
  \<^verbatim>\<open>Falcon.cpp\<close> is an Arduino sketch; the six channels sit on pins 3, 5, 6, 9, 10 and
  11, the PWM pins of the ATmega328 boards. On that target \<^verbatim>\<open>int\<close> has 16 bits and
  \<^verbatim>\<open>long\<close> 32 bits. The fields of type \<^verbatim>\<open>int\<close> are modelled as mathematical
  integers, and \<open>to_int\<close>, the two's complement reading of the low 16 bits, is applied
  in two places: where the sketch narrows a wider value to \<^verbatim>\<open>int\<close>
  (\<^verbatim>\<open>int delta = now - startTime - delay\<close>, an \<^verbatim>\<open>unsigned long\<close> expression), and
  where it adds two \<^verbatim>\<open>int\<close>s whose sum leaves the 16-bit range within the running
  times of the sketch (\<^verbatim>\<open>delta + phase\<close>; the overflow is undefined in C and wraps
  as compiled for the target). Time stamps (\<^verbatim>\<open>unsigned long\<close>) are 32-bit words, so
  that their subtraction wraps as in C.
\<close>

definition to_int :: "int \<Rightarrow> int" where
  "to_int x = (x + 32768) mod 65536 - 32768"

text \<open>
  The C operator \<^verbatim>\<open>%\<close> truncates towards zero: the remainder has the sign of the
  dividend. (A zero divisor is undefined behaviour in C; here the dividend comes back.)
\<close>

definition c_rem :: "int \<Rightarrow> int \<Rightarrow> int" where
  "c_rem a b = sgn a * (\<bar>a\<bar> mod \<bar>b\<bar>)"

text \<open>
  Values of type \<^verbatim>\<open>double\<close> are modelled as exact reals: \<^verbatim>\<open>cos\<close> is the real
  cosine, \<^verbatim>\<open>M_PI\<close> is \<open>pi\<close>, and no rounding takes place. The conversion
  \<^verbatim>\<open>int(x)\<close> of a double discards the fractional part. Division of reals by zero
  is 0 in HOL where the sketch would produce an infinity or a NaN; the theorems below
  that depend on such a quotient assume the divisor is not zero.

  The sketch rounds every double operation. Where the operands and the exact result
  are small integers or halves (the smoothing factor and its sign, the factor 1 at
  \<open>delta = 0\<close>, a completed ramp, the peak of the sinusoid) the rounded result is
  the exact one. Inside the smoothing window the blend of two values is rounded before
  it is truncated, and can be one below the truncation of the exact blend: blending 10
  with 10 at factor 0.044 stores 9. The theorems below therefore state exact values only
  outside the smoothing window or at factor 1, and inside it only bounds that rounding
  cannot break.
\<close>

definition c_int :: "real \<Rightarrow> int" where
  "c_int x = (if 0 \<le> x then \<lfloor>x\<rfloor> else \<lceil>x\<rceil>)"

text \<open>
  The hardware the sketch talks to: the millisecond clock read by \<^verbatim>\<open>millis()\<close>, the
  sequence of raw results of the C library generator \<^verbatim>\<open>random()\<close> together with
  the number of results consumed so far, and the log of \<^verbatim>\<open>analogWrite(pin, value)\<close>
  calls, latest first. The clock is moved from outside, between the calls of the sketch:
  the readings of \<^verbatim>\<open>millis()\<close> within one call of a member function or of
  \<^verbatim>\<open>nextFalconState\<close> are equal.
\<close>

record Hw =
  clock :: "32 word"
  draws :: "nat \<Rightarrow> nat"
  drawn :: nat
  pwm :: "(int \<times> int) list"

definition millis :: "Hw \<Rightarrow> 32 word" where
  "millis h = clock h"

definition analogWrite :: "int \<Rightarrow> int \<Rightarrow> Hw \<Rightarrow> Hw" where
  "analogWrite p v h = h\<lparr>pwm := (p, v) # pwm h\<rparr>"

definition random_raw :: "Hw \<Rightarrow> int \<times> Hw" where
  "random_raw h = (int (draws h (drawn h)), h\<lparr>drawn := Suc (drawn h)\<rparr>)"

text \<open>
  The two overloads of \<^verbatim>\<open>random\<close> of the Arduino core library, which the sketch
  calls but does not define. \<^verbatim>\<open>random(howbig)\<close> returns 0 without consulting the
  generator when \<open>howbig\<close> is 0 and the raw result modulo \<open>howbig\<close> otherwise;
  \<^verbatim>\<open>random(howsmall, howbig)\<close> returns \<open>howsmall\<close> when the range is empty and
  \<open>howsmall + random(howbig - howsmall)\<close> otherwise.
\<close>

definition random_max :: "int \<Rightarrow> Hw \<Rightarrow> int \<times> Hw" where
  "random_max howbig h =
     (if howbig = 0 then (0, h)
      else (let (r, h1) = random_raw h in (c_rem r howbig, h1)))"

definition random_range :: "int \<Rightarrow> int \<Rightarrow> Hw \<Rightarrow> int \<times> Hw" where
  "random_range howsmall howbig h =
     (if howsmall \<ge> howbig then (howsmall, h)
      else (let (r, h1) = random_max (howbig - howsmall) h in (r + howsmall, h1)))"

section \<open>The waveform engine: class Led\<close>

datatype LedMode = LedMode_on | LedMode_off | LedMode_ramp | LedMode_sinusoid | LedMode_flicker

record Led =
  pin :: int
  period :: int
  phase :: int
  delay :: int
  mode :: LedMode
  minBright :: int
  maxBright :: int
  startTime :: "32 word"
  lastValue :: int

text \<open>The member initialisers of the class, for a channel on pin \<open>pn\<close>.\<close>

definition Led_new :: "int \<Rightarrow> Led" where
  "Led_new pn =
     \<lparr>pin = pn, period = 1000, phase = 0, delay = 0, mode = LedMode_sinusoid,
      minBright = 0, maxBright = 255, startTime = 0, lastValue = 0\<rparr>"

text \<open>
  \<^verbatim>\<open>int delta = now - startTime - delay\<close>: an unsigned 32-bit difference (the
  \<^verbatim>\<open>int\<close> operand is converted to \<^verbatim>\<open>unsigned long\<close>), narrowed to \<^verbatim>\<open>int\<close>.
\<close>

definition Led_delta :: "32 word \<Rightarrow> Led \<Rightarrow> int" where
  "Led_delta now l = to_int (uint (now - startTime l - word_of_int (delay l)))"

text \<open>
  The \<^verbatim>\<open>switch (mode)\<close> of \<^verbatim>\<open>Led::update\<close>: the value the current mode asks for
  at \<open>delta\<close> milliseconds after activation, before smoothing. Only the flicker case
  consults the random source. The sum \<^verbatim>\<open>delta + phase\<close> is a 16-bit sum.
\<close>

definition Led_waveform :: "int \<Rightarrow> Led \<Rightarrow> Hw \<Rightarrow> int \<times> Hw" where
  "Led_waveform delta l h =
     (case mode l of
        LedMode_off \<Rightarrow> (0, h)
      | LedMode_on \<Rightarrow> (maxBright l, h)
      | LedMode_ramp \<Rightarrow>
          (let v = real_of_int (min (period l) delta) / real_of_int (period l)
           in (minBright l + c_int (real_of_int (maxBright l - minBright l) * v), h))
      | LedMode_sinusoid \<Rightarrow>
          (let t = real_of_int (c_rem (to_int (delta + phase l)) (period l))
                     / real_of_int (period l - 1);
               v = (cos (2 * pi * (t - 1 / 2)) + 1) / 2
           in (minBright l + c_int (real_of_int (maxBright l - minBright l) * v), h))
      | LedMode_flicker \<Rightarrow>
          (if c_rem delta 29 = 0 then random_range (minBright l) (maxBright l) h
           else (lastValue l, h)))"

text \<open>
  The cross-fade of \<^verbatim>\<open>Led::update\<close>: while \<open>factor = (p2 - delta) / p2\<close> is
  positive, the value written is the blend of the previous output and the waveform.
  The sign of \<open>factor\<close> is the same in the sketch's arithmetic; the blend is the
  exact one, which the sketch's rounded blend matches at \<open>factor = 1\<close> and where both
  values are 0, and otherwise only up to the rounding described above.
\<close>

definition Led_smooth :: "int \<Rightarrow> Led \<Rightarrow> int \<Rightarrow> int" where
  "Led_smooth delta l v =
     (let p2 = real_of_int (period l) / 2;
          factor = (p2 - real_of_int delta) / p2
      in if factor > 0
         then c_int (factor * real_of_int (lastValue l) + (1 - factor) * real_of_int v)
         else v)"

definition Led_update :: "32 word \<Rightarrow> Led \<Rightarrow> Hw \<Rightarrow> Led \<times> Hw" where
  "Led_update now l h =
     (let delta = Led_delta now l in
      if delta < 0 then (l, h)
      else
        (let (v, h1) = Led_waveform delta l h;
             v2 = Led_smooth delta l v;
             h2 = (if v2 \<noteq> lastValue l then analogWrite (pin l) v2 h1 else h1)
         in (l\<lparr>lastValue := v2\<rparr>, h2)))"

definition Led_off :: "Led \<Rightarrow> Hw \<Rightarrow> Led \<times> Hw" where
  "Led_off l h =
     (let l1 = l\<lparr>mode := LedMode_off, startTime := millis h, lastValue := 0\<rparr>
      in (l1, analogWrite (pin l1) (lastValue l1) h))"

definition Led_on :: "int \<Rightarrow> Led \<Rightarrow> Hw \<Rightarrow> Led \<times> Hw" where
  "Led_on mx l h =
     (let l1 = l\<lparr>mode := LedMode_on, maxBright := mx, lastValue := mx, startTime := millis h\<rparr>
      in (l1, analogWrite (pin l1) (lastValue l1) h))"

definition Led_rampTo :: "int \<Rightarrow> int \<Rightarrow> int \<Rightarrow> Led \<Rightarrow> Hw \<Rightarrow> Led \<times> Hw" where
  "Led_rampTo mx pd d l h =
     (let l1 = l\<lparr>mode := LedMode_ramp, minBright := lastValue l, maxBright := mx,
                 period := pd, delay := d, startTime := millis h\<rparr>
      in Led_update (millis h) l1 h)"

definition Led_startSinusoid :: "int \<Rightarrow> int \<Rightarrow> int \<Rightarrow> int \<Rightarrow> Led \<Rightarrow> Hw \<Rightarrow> Led \<times> Hw" where
  "Led_startSinusoid pd mn mx ph l h =
     (let l1 = l\<lparr>mode := LedMode_sinusoid, minBright := mn, maxBright := mx,
                 period := pd, phase := ph, startTime := millis h\<rparr>
      in Led_update (millis h) l1 h)"

definition Led_startFlicker :: "int \<Rightarrow> int \<Rightarrow> int \<Rightarrow> Led \<Rightarrow> Hw \<Rightarrow> Led \<times> Hw" where
  "Led_startFlicker mn mx d l h =
     (l\<lparr>mode := LedMode_flicker, minBright := mn, maxBright := mx, delay := d\<rparr>, h)"

section \<open>The engine group: class Engine\<close>

datatype EngineState =
    EngineState_off | EngineState_idling | EngineState_fullPower | EngineState_failing
  | EngineState_rampingUp | EngineState_rampingDown | EngineState_landing

record Engine =
  engineState :: EngineState
  led1 :: Led
  led2 :: Led
  led3 :: Led

definition Engine_new :: Engine where
  "Engine_new =
     \<lparr>engineState = EngineState_idling, led1 = Led_new 9, led2 = Led_new 10, led3 = Led_new 11\<rparr>"

text \<open>One member call on one of the three channels of the engine.\<close>

definition on_led1 :: "(Led \<Rightarrow> Hw \<Rightarrow> Led \<times> Hw) \<Rightarrow> Engine \<times> Hw \<Rightarrow> Engine \<times> Hw" where
  "on_led1 f eh = (let (l, h) = f (led1 (fst eh)) (snd eh) in ((fst eh)\<lparr>led1 := l\<rparr>, h))"

definition on_led2 :: "(Led \<Rightarrow> Hw \<Rightarrow> Led \<times> Hw) \<Rightarrow> Engine \<times> Hw \<Rightarrow> Engine \<times> Hw" where
  "on_led2 f eh = (let (l, h) = f (led2 (fst eh)) (snd eh) in ((fst eh)\<lparr>led2 := l\<rparr>, h))"

definition on_led3 :: "(Led \<Rightarrow> Hw \<Rightarrow> Led \<times> Hw) \<Rightarrow> Engine \<times> Hw \<Rightarrow> Engine \<times> Hw" where
  "on_led3 f eh = (let (l, h) = f (led3 (fst eh)) (snd eh) in ((fst eh)\<lparr>led3 := l\<rparr>, h))"

text \<open>
  \<^verbatim>\<open>Engine::newState\<close>. The phase arguments \<^verbatim>\<open>period / 3\<close> and \<^verbatim>\<open>-period / 3\<close>
  are integer divisions of the constants 2000 and 60.
\<close>

fun Engine_newState :: "EngineState \<Rightarrow> Engine \<Rightarrow> Hw \<Rightarrow> Engine \<times> Hw" where
  "Engine_newState EngineState_off e h =
     (on_led3 Led_off (on_led2 Led_off (on_led1 Led_off
        (e\<lparr>engineState := EngineState_off\<rparr>, h))))"
| "Engine_newState EngineState_idling e h =
     (on_led3 (Led_startSinusoid 2000 10 40 (- 666))
       (on_led2 (Led_startSinusoid 2000 10 40 666)
         (on_led1 (Led_startSinusoid 2000 10 40 0)
           (e\<lparr>engineState := EngineState_idling\<rparr>, h))))"
| "Engine_newState EngineState_fullPower e h =
     (on_led3 (Led_startSinusoid 60 200 255 (- 20))
       (on_led2 (Led_startSinusoid 60 200 255 20)
         (on_led1 (Led_startSinusoid 60 200 255 0)
           (e\<lparr>engineState := EngineState_fullPower\<rparr>, h))))"
| "Engine_newState EngineState_failing e h =
     (on_led3 (Led_startSinusoid 1000 64 170 0)
       (on_led2 (Led_startFlicker 0 64 0)
         (on_led1 (Led_startFlicker 64 128 0)
           (e\<lparr>engineState := EngineState_failing\<rparr>, h))))"
| "Engine_newState EngineState_rampingUp e h =
     (on_led3 (Led_rampTo 220 6000 0)
       (on_led2 (Led_rampTo 220 6000 0)
         (on_led1 (Led_rampTo 220 6000 0)
           (e\<lparr>engineState := EngineState_rampingUp\<rparr>, h))))"
| "Engine_newState EngineState_rampingDown e h =
     (on_led3 (Led_rampTo 0 2000 0)
       (on_led2 (Led_rampTo 0 2000 0)
         (on_led1 (Led_rampTo 0 2000 0)
           (e\<lparr>engineState := EngineState_rampingDown\<rparr>, h))))"
| "Engine_newState EngineState_landing e h =
     (on_led3 (Led_rampTo 25 4000 0)
       (on_led2 (Led_rampTo 25 4000 0)
         (on_led1 (Led_rampTo 25 4000 0)
           (e\<lparr>engineState := EngineState_landing\<rparr>, h))))"

definition Engine_loop :: "32 word \<Rightarrow> Engine \<Rightarrow> Hw \<Rightarrow> Engine \<times> Hw" where
  "Engine_loop now e h =
     on_led3 (Led_update now) (on_led2 (Led_update now) (on_led1 (Led_update now) (e, h)))"

section \<open>The narrative state machine\<close>

datatype FalconState =
    OnGround | PrepareForFlight | FailingStart | Failing | EmergencyShutdown
  | Restarting | InFlight | Landing

text \<open>\<^verbatim>\<open>struct NextState\<close>; its member \<^verbatim>\<open>next\<close> is the field \<open>next_state\<close>.\<close>

record NextState =
  timeToSwitch :: int
  next_state :: FalconState

text \<open>The globals of the sketch, with the hardware they act on.\<close>

record World =
  hw :: Hw
  engine :: Engine
  cockpit :: Led
  headlights :: Led
  landingLights :: Led
  falconState :: FalconState
  lastStartFailed :: bool

definition on_cockpit :: "(Led \<Rightarrow> Hw \<Rightarrow> Led \<times> Hw) \<Rightarrow> World \<Rightarrow> World" where
  "on_cockpit f w = (let (l, h) = f (cockpit w) (hw w) in w\<lparr>cockpit := l, hw := h\<rparr>)"

definition on_headlights :: "(Led \<Rightarrow> Hw \<Rightarrow> Led \<times> Hw) \<Rightarrow> World \<Rightarrow> World" where
  "on_headlights f w = (let (l, h) = f (headlights w) (hw w) in w\<lparr>headlights := l, hw := h\<rparr>)"

definition on_landingLights :: "(Led \<Rightarrow> Hw \<Rightarrow> Led \<times> Hw) \<Rightarrow> World \<Rightarrow> World" where
  "on_landingLights f w =
     (let (l, h) = f (landingLights w) (hw w) in w\<lparr>landingLights := l, hw := h\<rparr>)"

definition on_engine :: "(Engine \<Rightarrow> Hw \<Rightarrow> Engine \<times> Hw) \<Rightarrow> World \<Rightarrow> World" where
  "on_engine f w = (let (e, h) = f (engine w) (hw w) in w\<lparr>engine := e, hw := h\<rparr>)"

text \<open>A call of \<^verbatim>\<open>random\<close> whose result the caller keeps.\<close>

definition draw :: "(Hw \<Rightarrow> int \<times> Hw) \<Rightarrow> World \<Rightarrow> int \<times> World" where
  "draw f w = (let (r, h) = f (hw w) in (r, w\<lparr>hw := h\<rparr>))"

text \<open>
  \<^verbatim>\<open>lastStartFailed = !lastStartFailed && random(1024%4) == 0\<close>: the operator
  \<^verbatim>\<open>&&\<close> does not evaluate its right operand when the left one is false, and the
  argument of \<^verbatim>\<open>random\<close> is the remainder \<^verbatim>\<open>1024 % 4\<close>.
\<close>

definition roll_start_failure :: "World \<Rightarrow> World" where
  "roll_start_failure w =
     (if lastStartFailed w then w\<lparr>lastStartFailed := False\<rparr>
      else (let (r, w1) = draw (random_max (c_rem 1024 4)) w
            in w1\<lparr>lastStartFailed := (r = 0)\<rparr>))"

fun nextFalconState :: "FalconState \<Rightarrow> World \<Rightarrow> NextState \<times> World" where
  "nextFalconState OnGround w0 =
     (let w1 = on_cockpit (Led_rampTo 255 250 0) (w0\<lparr>falconState := OnGround\<rparr>);
          w2 = on_headlights (Led_rampTo 0 1000 0) w1;
          w3 = on_landingLights (Led_rampTo 255 1000 1000) w2;
          w4 = on_engine (Engine_newState EngineState_idling) w3;
          w5 = roll_start_failure w4;
          (t, w6) = draw (random_range 5000 20000) w5
      in (\<lparr>timeToSwitch = t,
           next_state = (if lastStartFailed w6 then FailingStart else PrepareForFlight)\<rparr>, w6))"
| "nextFalconState PrepareForFlight w0 =
     (let w1 = on_cockpit (Led_rampTo 64 3000 2000) (w0\<lparr>falconState := PrepareForFlight\<rparr>);
          w2 = on_headlights (Led_rampTo 255 500 1400) w1;
          w3 = on_landingLights (Led_rampTo 0 1500 0) w2;
          w4 = on_engine (Engine_newState EngineState_rampingUp) w3
      in (\<lparr>timeToSwitch = 6000, next_state = InFlight\<rparr>, w4))"
| "nextFalconState FailingStart w0 =
     (let w1 = on_cockpit (Led_rampTo 64 3000 2000) (w0\<lparr>falconState := FailingStart\<rparr>);
          w2 = on_headlights (Led_rampTo 255 500 1400) w1;
          w3 = on_landingLights (Led_rampTo 0 1500 0) w2;
          w4 = on_engine (Engine_newState EngineState_rampingUp) w3;
          (t, w5) = draw (random_range 2000 4000) w4
      in (\<lparr>timeToSwitch = t, next_state = Failing\<rparr>, w5))"
| "nextFalconState Failing w0 =
     (let (d1, w1) = draw (random_range 100 1500) (w0\<lparr>falconState := Failing\<rparr>);
          w2 = on_cockpit (Led_startFlicker 0 128 d1) w1;
          (d2, w3) = draw (random_range 1000 2000) w2;
          w4 = on_headlights (Led_startFlicker 0 32 d2) w3;
          (d3, w5) = draw (random_range 100 2000) w4;
          w6 = on_landingLights (Led_startFlicker 32 128 d3) w5;
          w7 = on_engine (Engine_newState EngineState_failing) w6;
          (t, w8) = draw (random_range 1000 2000) w7
      in (\<lparr>timeToSwitch = t, next_state = EmergencyShutdown\<rparr>, w8))"
| "nextFalconState EmergencyShutdown w0 =
     (let w1 = on_headlights (Led_rampTo 0 750 0) (w0\<lparr>falconState := EmergencyShutdown\<rparr>);
          w2 = on_cockpit (Led_rampTo 0 250 750) w1;
          w3 = on_landingLights (Led_rampTo 0 500 0) w2;
          w4 = on_engine (Engine_newState EngineState_rampingDown) w3
      in (\<lparr>timeToSwitch = 5000, next_state = Restarting\<rparr>, w4))"
| "nextFalconState Restarting w0 =
     (let w1 = on_headlights Led_off (w0\<lparr>falconState := Restarting\<rparr>);
          w2 = on_cockpit (Led_rampTo 255 750 0) w1;
          w3 = on_landingLights (Led_rampTo 255 1500 2000) w2;
          w4 = on_engine (Engine_newState EngineState_off) w3
      in (\<lparr>timeToSwitch = 4000, next_state = OnGround\<rparr>, w4))"
| "nextFalconState InFlight w0 =
     (let w1 = on_cockpit (Led_rampTo 64 250 0) (w0\<lparr>falconState := InFlight\<rparr>);
          w2 = on_headlights (Led_rampTo 255 500 0) w1;
          w3 = on_landingLights (Led_rampTo 0 500 0) w2;
          w4 = on_engine (Engine_newState EngineState_fullPower) w3;
          (t, w5) = draw (random_range 10000 20000) w4
      in (\<lparr>timeToSwitch = t, next_state = Landing\<rparr>, w5))"
| "nextFalconState Landing w0 =
     (let w1 = on_cockpit (Led_rampTo 200 500 0) (w0\<lparr>falconState := Landing\<rparr>);
          w2 = on_landingLights (Led_rampTo 255 1500 1500) w1;
          w3 = on_headlights (Led_rampTo 0 2000 1500) w2;
          w4 = on_engine (Engine_newState EngineState_landing) w3
      in (\<lparr>timeToSwitch = 4000, next_state = OnGround\<rparr>, w4))"

section \<open>Runs of the sketch, and channels to evaluate at\<close>

text \<open>
  The successor a transition announces, and what the sketch can do between two
  transitions: the clock moves on, the main loop polls every channel with its reading
  \<open>now\<close> of the clock (\<^verbatim>\<open>engine.loop(now)\<close> and the three \<^verbatim>\<open>update(now)\<close> calls of
  \<^verbatim>\<open>loop()\<close>), or a transition of the narrative machine runs.
\<close>

definition successor :: "FalconState \<Rightarrow> World \<Rightarrow> FalconState" where
  "successor st w = next_state (fst (nextFalconState st w))"

definition poll :: "32 word \<Rightarrow> World \<Rightarrow> World" where
  "poll now w =
     on_landingLights (Led_update now)
       (on_headlights (Led_update now)
         (on_cockpit (Led_update now) (on_engine (Engine_loop now) w)))"

datatype step = Tick "32 word" | Poll "32 word" | Transition FalconState

fun do_step :: "step \<Rightarrow> World \<Rightarrow> World" where
  "do_step (Tick t) w = w\<lparr>hw := (hw w)\<lparr>clock := t\<rparr>\<rparr>"
| "do_step (Poll now) w = poll now w"
| "do_step (Transition st) w = snd (nextFalconState st w)"

fun do_steps :: "step list \<Rightarrow> World \<Rightarrow> World" where
  "do_steps [] w = w"
| "do_steps (x # xs) w = do_steps xs (do_step x w)"

text \<open>\<open>advance k st w\<close>: the state and the globals after \<open>k\<close> transitions from \<open>st\<close>.\<close>

fun advance :: "nat \<Rightarrow> FalconState \<Rightarrow> World \<Rightarrow> FalconState \<times> World" where
  "advance 0 st w = (st, w)"
| "advance (Suc k) st w =
     (let (ns, w1) = nextFalconState st w in advance k (next_state ns) w1)"

text \<open>A world to evaluate at: the globals as initialised, the generator returning 7s.\<close>

definition hw0 :: Hw where
  "hw0 = \<lparr>clock = 0, draws = (\<lambda>n. 7), drawn = 0, pwm = []\<rparr>"

definition world0 :: World where
  "world0 =
     \<lparr>hw = hw0, engine = Engine_new, cockpit = Led_new 3, headlights = Led_new 5,
      landingLights = Led_new 6, falconState = OnGround, lastStartFailed = False\<rparr>"

text \<open>A channel in its activation delay: 200 ms into a delay of 500 ms.\<close>

definition led_waiting :: Led where
  "led_waiting =
     (Led_new 6)\<lparr>mode := LedMode_ramp, delay := 500, startTime := 1000, lastValue := 17\<rparr>"

text \<open>Flicker channels: one with an empty range of samples, one with the range 0 to 31.\<close>

definition led_flat_flicker :: Led where
  "led_flat_flicker =
     (Led_new 3)\<lparr>mode := LedMode_flicker, minBright := 5, maxBright := 5, lastValue := 5\<rparr>"

definition led_flicker :: Led where
  "led_flicker =
     (Led_new 3)\<lparr>mode := LedMode_flicker, minBright := 0, maxBright := 32, lastValue := 10\<rparr>"

text \<open>A sequence of \<^verbatim>\<open>update\<close> calls on one channel, at the given clock readings.\<close>

fun Led_updates :: "32 word list \<Rightarrow> Led \<Rightarrow> Hw \<Rightarrow> Led \<times> Hw" where
  "Led_updates [] l h = (l, h)"
| "Led_updates (now # nows) l h = (let (l1, h1) = Led_update now l h in Led_updates nows l1 h1)"

text \<open>
  The headlights of the sketch when the Failing state begins: their ramp to 255 is
  complete, and \<^verbatim>\<open>startFlicker(0, 32, 1000)\<close> has just been called.
\<close>

definition led_headlights :: Led where
  "led_headlights =
     fst (Led_startFlicker 0 32 1000
       ((Led_new 5)\<lparr>mode := LedMode_ramp, period := 500, delay := 1400, minBright := 0,
          maxBright := 255, lastValue := 255\<rparr>) hw0)"

text \<open>A channel showing 200, as after a completed ramp to 200.\<close>

definition led_bright :: Led where
  "led_bright = (Led_new 5)\<lparr>mode := LedMode_ramp, maxBright := 200, lastValue := 200\<rparr>"

text \<open>
  The first engine channel at full power: \<^verbatim>\<open>led1.startSinusoid(60, 200, 255)\<close> on the
  channel as constructed. A channel with the odd period 61, for which the waveform has
  a sampling instant at its peak.
\<close>

definition led_full_power :: Led where
  "led_full_power = fst (Led_startSinusoid 60 200 255 0 (Led_new 9) hw0)"

definition led_odd_period :: Led where
  "led_odd_period = (Led_new 9)\<lparr>period := 61, minBright := 200, maxBright := 255\<rparr>"

text \<open>
  Channels outside the intended configurations: one with a negative period, and a
  sinusoid whose phase is below minus its period.
\<close>

definition led_negative_period :: Led where
  "led_negative_period = (Led_new 3)\<lparr>mode := LedMode_off, period := - 2, lastValue := 100\<rparr>"

definition led_early_phase :: Led where
  "led_early_phase = (Led_new 3)\<lparr>period := 4, phase := - 5, minBright := 0, maxBright := 6\<rparr>"

text \<open>
  A call of \<^verbatim>\<open>update\<close> that does not blend: before activation, or once the smoothing
  window is over.
\<close>

definition outside_window :: "32 word \<Rightarrow> Led \<Rightarrow> bool" where
  "outside_window now l = (Led_delta now l < 0 \<or> period l \<le> 2 * Led_delta now l)"

section \<open>The narrative machine: the start-failure flag and the successor graph\<close>

lemma lsf_on_cockpit: "lastStartFailed (on_cockpit f w) = lastStartFailed w"
  by (simp add: on_cockpit_def case_prod_beta)

lemma lsf_on_headlights: "lastStartFailed (on_headlights f w) = lastStartFailed w"
  by (simp add: on_headlights_def case_prod_beta)

lemma lsf_on_landingLights: "lastStartFailed (on_landingLights f w) = lastStartFailed w"
  by (simp add: on_landingLights_def case_prod_beta)

lemma lsf_on_engine: "lastStartFailed (on_engine f w) = lastStartFailed w"
  by (simp add: on_engine_def case_prod_beta)

lemma lsf_draw: "lastStartFailed (snd (draw f w)) = lastStartFailed w"
  by (simp add: draw_def case_prod_beta)

lemmas lsf_frame =
  lsf_on_cockpit lsf_on_headlights lsf_on_landingLights lsf_on_engine lsf_draw

lemma c_rem_1024_4: "c_rem 1024 4 = 0"
  by (simp add: c_rem_def)

text \<open>The argument of \<^verbatim>\<open>random\<close> is 0, so the result is 0 and no raw result is used.\<close>

lemma random_max_1024_rem_4: "random_max (c_rem 1024 4) h = (0, h)"
  by (simp add: c_rem_1024_4 random_max_def)

lemma lsf_roll: "lastStartFailed (roll_start_failure w) = (\<not> lastStartFailed w)"
  by (simp add: roll_start_failure_def random_max_1024_rem_4 draw_def)

lemma lsf_OnGround:
  "lastStartFailed (snd (nextFalconState OnGround w)) = (\<not> lastStartFailed w)"
  by (simp add: Let_def case_prod_beta lsf_frame lsf_roll)

lemma successor_OnGround:
  "successor OnGround w = (if lastStartFailed w then PrepareForFlight else FailingStart)"
  by (simp add: successor_def Let_def case_prod_beta lsf_frame lsf_roll)

lemma successor_others:
  "successor PrepareForFlight w = InFlight"
  "successor FailingStart w = Failing"
  "successor Failing w = EmergencyShutdown"
  "successor EmergencyShutdown w = Restarting"
  "successor Restarting w = OnGround"
  "successor InFlight w = Landing"
  "successor Landing w = OnGround"
  by (simp_all add: successor_def Let_def case_prod_beta)

lemma lsf_other:
  "st \<noteq> OnGround \<Longrightarrow> lastStartFailed (snd (nextFalconState st w)) = lastStartFailed w"
  by (cases st) (simp_all add: Let_def case_prod_beta lsf_frame)

declare nextFalconState.simps [simp del]

lemma lsf_poll: "lastStartFailed (poll now w) = lastStartFailed w"
  by (simp add: poll_def lsf_frame)

lemma lsf_do_step:
  "x \<noteq> Transition OnGround \<Longrightarrow> lastStartFailed (do_step x w) = lastStartFailed w"
  by (cases x) (simp_all add: lsf_poll lsf_other)

lemma lsf_do_steps:
  "Transition OnGround \<notin> set xs \<Longrightarrow> lastStartFailed (do_steps xs w) = lastStartFailed w"
proof (induction xs arbitrary: w)
  case Nil
  show ?case by simp
next
  case (Cons x xs)
  from Cons.prems have "x \<noteq> Transition OnGround" and "Transition OnGround \<notin> set xs"
    by auto
  with Cons.IH [of "do_step x w"] show ?case
    by (simp add: lsf_do_step)
qed

text \<open>
  C1. On the OnGround transition with \<open>lastStartFailed\<close> false, the claim has the flag
  become true with probability 1/4, when a draw over a 4-element range is 0, and
  PrepareForFlight returned for the other draws. The sketch calls
  \<^verbatim>\<open>random(1024%4)\<close>, that is \<^verbatim>\<open>random(0)\<close>, whose result is always 0: whatever the
  raw results \<open>d\<close> of the generator, the flag becomes true and the successor is
  FailingStart.
\<close>

theorem C1_start_failure_is_certain:
  "successor OnGround (w\<lparr>lastStartFailed := False, hw := (hw w)\<lparr>draws := d\<rparr>\<rparr>) = FailingStart
   \<and> lastStartFailed
        (snd (nextFalconState OnGround (w\<lparr>lastStartFailed := False, hw := (hw w)\<lparr>draws := d\<rparr>\<rparr>)))"
  by (simp add: successor_OnGround lsf_OnGround)

text \<open>
  C2. Two consecutive invocations of the OnGround transition never both return
  FailingStart, whatever the flag and the random source were, and whatever the sketch
  does in between: the clock may move, the main loop may poll the channels, and any
  transition other than OnGround may run.
\<close>

theorem C2_no_repeated_start_failure:
  assumes "Transition OnGround \<notin> set between"
  shows "\<not> (successor OnGround w = FailingStart
            \<and> successor OnGround (do_steps between (snd (nextFalconState OnGround w)))
                = FailingStart)"
  using assms by (simp add: successor_OnGround lsf_do_steps lsf_OnGround)

theorem C2_no_repeated_start_failure_witness:
  "Transition OnGround \<notin> set [Tick 9000, Transition FailingStart, Poll 9000, Tick 12000,
        Transition Failing, Poll 12000]
   \<and> successor OnGround world0 = FailingStart
   \<and> successor OnGround
        (do_steps [Tick 9000, Transition FailingStart, Poll 9000, Tick 12000,
            Transition Failing, Poll 12000]
          (snd (nextFalconState OnGround world0))) = PrepareForFlight"
proof -
  let ?b = "[Tick 9000, Transition FailingStart, Poll 9000, Tick 12000,
        Transition Failing, Poll 12000]"
  have h: "Transition OnGround \<notin> set ?b" by simp
  have a: "successor OnGround world0 = FailingStart"
    by (simp add: successor_OnGround world0_def)
  from C2_no_repeated_start_failure [OF h, of world0] a
  have "successor OnGround (do_steps ?b (snd (nextFalconState OnGround world0))) \<noteq> FailingStart"
    by blast
  then have "successor OnGround (do_steps ?b (snd (nextFalconState OnGround world0))) = PrepareForFlight"
    by (simp add: successor_OnGround split: if_splits)
  with h a show ?thesis by blast
qed

lemma advance_Suc_fst:
  "fst (advance (Suc k) st w) = fst (advance k (successor st w) (snd (nextFalconState st w)))"
  by (simp add: successor_def case_prod_beta)

lemma reach_now:
  "successor st w = OnGround \<Longrightarrow> \<exists>k. 1 \<le> k \<and> k \<le> Suc n \<and> fst (advance k st w) = OnGround"
  by (rule exI [of _ 1]) (simp add: successor_def case_prod_beta)

lemma reach_later:
  assumes "\<And>w'. \<exists>k. 1 \<le> k \<and> k \<le> n \<and> fst (advance k (successor st w) w') = OnGround"
  shows "\<exists>k. 1 \<le> k \<and> k \<le> Suc n \<and> fst (advance k st w) = OnGround"
proof -
  from assms obtain k where k: "1 \<le> k" "k \<le> n"
    "fst (advance k (successor st w) (snd (nextFalconState st w))) = OnGround"
    by blast
  then have "fst (advance (Suc k) st w) = OnGround"
    by (simp only: advance_Suc_fst)
  with k show ?thesis
    by (intro exI [of _ "Suc k"]) simp
qed

lemma reach_Landing: "\<exists>k. 1 \<le> k \<and> k \<le> Suc 0 \<and> fst (advance k Landing w) = OnGround"
  by (rule reach_now) (simp add: successor_others)

lemma reach_Restarting: "\<exists>k. 1 \<le> k \<and> k \<le> Suc 0 \<and> fst (advance k Restarting w) = OnGround"
  by (rule reach_now) (simp add: successor_others)

lemma reach_InFlight: "\<exists>k. 1 \<le> k \<and> k \<le> Suc (Suc 0) \<and> fst (advance k InFlight w) = OnGround"
  by (rule reach_later) (simp only: successor_others reach_Landing)

lemma reach_EmergencyShutdown:
  "\<exists>k. 1 \<le> k \<and> k \<le> Suc (Suc 0) \<and> fst (advance k EmergencyShutdown w) = OnGround"
  by (rule reach_later) (simp only: successor_others reach_Restarting)

lemma reach_PrepareForFlight:
  "\<exists>k. 1 \<le> k \<and> k \<le> Suc (Suc (Suc 0)) \<and> fst (advance k PrepareForFlight w) = OnGround"
  by (rule reach_later) (simp only: successor_others reach_InFlight)

lemma reach_Failing:
  "\<exists>k. 1 \<le> k \<and> k \<le> Suc (Suc (Suc 0)) \<and> fst (advance k Failing w) = OnGround"
  by (rule reach_later) (simp only: successor_others reach_EmergencyShutdown)

lemma reach_FailingStart:
  "\<exists>k. 1 \<le> k \<and> k \<le> Suc (Suc (Suc (Suc 0))) \<and> fst (advance k FailingStart w) = OnGround"
  by (rule reach_later) (simp only: successor_others reach_Failing)

lemma reach_weaken:
  "\<exists>k. 1 \<le> k \<and> k \<le> m \<and> fst (advance k st w) = OnGround \<Longrightarrow> m \<le> n \<Longrightarrow>
   \<exists>k. 1 \<le> k \<and> k \<le> n \<and> fst (advance k st w) = OnGround"
  by (meson order_trans)

lemma reach_OnGround:
  "\<exists>k. 1 \<le> k \<and> k \<le> Suc (Suc (Suc (Suc (Suc 0)))) \<and> fst (advance k OnGround w) = OnGround"
proof (rule reach_later)
  fix w'
  show "\<exists>k. 1 \<le> k \<and> k \<le> Suc (Suc (Suc (Suc 0)))
          \<and> fst (advance k (successor OnGround w) w') = OnGround"
  proof (cases "lastStartFailed w")
    case True
    then have "successor OnGround w = PrepareForFlight" by (simp add: successor_OnGround)
    with reach_weaken [OF reach_PrepareForFlight [of w'], of "Suc (Suc (Suc (Suc 0)))"]
    show ?thesis by simp
  next
    case False
    then have "successor OnGround w = FailingStart" by (simp add: successor_OnGround)
    with reach_FailingStart [of w'] show ?thesis by simp
  qed
qed

lemma advance_reaches:
  "\<exists>k. 1 \<le> k \<and> k \<le> 5 \<and> fst (advance k st w) = OnGround"
proof -
  have five: "(5::nat) = Suc (Suc (Suc (Suc (Suc 0))))" by simp
  show ?thesis
  proof (cases st)
    case OnGround
    then show ?thesis using reach_OnGround [of w] by (simp only: five)
  next
    case PrepareForFlight
    then show ?thesis using reach_weaken [OF reach_PrepareForFlight [of w], of 5] by simp
  next
    case FailingStart
    then show ?thesis using reach_weaken [OF reach_FailingStart [of w], of 5] by simp
  next
    case Failing
    then show ?thesis using reach_weaken [OF reach_Failing [of w], of 5] by simp
  next
    case EmergencyShutdown
    then show ?thesis using reach_weaken [OF reach_EmergencyShutdown [of w], of 5] by simp
  next
    case Restarting
    then show ?thesis using reach_weaken [OF reach_Restarting [of w], of 5] by simp
  next
    case InFlight
    then show ?thesis using reach_weaken [OF reach_InFlight [of w], of 5] by simp
  next
    case Landing
    then show ?thesis using reach_weaken [OF reach_Landing [of w], of 5] by simp
  qed
qed

text \<open>
  C10. The successor graph is the cycle OnGround, PrepareForFlight, InFlight, Landing,
  OnGround with the branch OnGround, FailingStart, Failing, EmergencyShutdown,
  Restarting, OnGround; from every state, iterating the successor returns to OnGround
  after at least one and at most five transitions. This holds for the globals threaded
  through the transitions (\<open>advance\<close>) and also when the globals are replaced by
  arbitrary ones \<open>w1\<close>, ..., \<open>w5\<close> before each transition.
\<close>

theorem C10_returns_to_ground:
  "successor OnGround w = (if lastStartFailed w then PrepareForFlight else FailingStart)
   \<and> successor PrepareForFlight w = InFlight
   \<and> successor InFlight w = Landing
   \<and> successor Landing w = OnGround
   \<and> successor FailingStart w = Failing
   \<and> successor Failing w = EmergencyShutdown
   \<and> successor EmergencyShutdown w = Restarting
   \<and> successor Restarting w = OnGround
   \<and> (\<exists>k. 1 \<le> k \<and> k \<le> 5 \<and> fst (advance k st w) = OnGround)
   \<and> (successor st w1 = OnGround
        \<or> successor (successor st w1) w2 = OnGround
        \<or> successor (successor (successor st w1) w2) w3 = OnGround
        \<or> successor (successor (successor (successor st w1) w2) w3) w4 = OnGround
        \<or> successor (successor (successor (successor (successor st w1) w2) w3) w4) w5 = OnGround)"
proof -
  have "successor st w1 = OnGround
        \<or> successor (successor st w1) w2 = OnGround
        \<or> successor (successor (successor st w1) w2) w3 = OnGround
        \<or> successor (successor (successor (successor st w1) w2) w3) w4 = OnGround
        \<or> successor (successor (successor (successor (successor st w1) w2) w3) w4) w5 = OnGround"
    by (cases st) (simp_all add: successor_OnGround successor_others)
  then show ?thesis
    using advance_reaches [of st w] by (simp add: successor_OnGround successor_others)
qed

section \<open>The waveform engine: elapsed time and conversions\<close>

lemma to_int_id: "- 32768 \<le> x \<Longrightarrow> x < 32768 \<Longrightarrow> to_int x = x"
  by (simp add: to_int_def)

lemma to_int_mod: "to_int (x mod 4294967296) = to_int x"
proof -
  have d: "(65536::int) dvd 4294967296" by simp
  have "(x mod 4294967296 + 32768) mod 65536 = (x mod 4294967296 mod 65536 + 32768) mod 65536"
    by (simp only: mod_add_left_eq)
  also have "\<dots> = (x mod 65536 + 32768) mod 65536"
    by (simp only: mod_mod_cancel [OF d])
  also have "\<dots> = (x + 32768) mod 65536"
    by (simp only: mod_add_left_eq)
  finally show ?thesis by (simp add: to_int_def)
qed

lemma Led_delta_int:
  "Led_delta now l = to_int (uint now - uint (startTime l) - delay l)"
proof -
  have "uint (now - startTime l - word_of_int (delay l))
        = (uint now - uint (startTime l) - delay l) mod 4294967296"
    by (simp add: uint_word_arith_bintrs take_bit_eq_mod mod_simps uint_word_of_int) 
  then show ?thesis by (simp add: Led_delta_def to_int_mod)
qed

lemma uint_word_of_int_32: "uint (word_of_int z :: 32 word) = z mod 4294967296"
  by (simp add: uint_word_of_int)

lemma Led_delta_offset:
  "Led_delta (startTime l + word_of_int k) l = to_int (k - delay l)"
proof -
  have "startTime l + word_of_int k - startTime l - word_of_int (delay l)
        = (word_of_int (k - delay l) :: 32 word)"
    by simp
  then have "Led_delta (startTime l + word_of_int k) l
        = to_int (uint (word_of_int (k - delay l) :: 32 word))"
    by (simp only: Led_delta_def)
  then show ?thesis by (simp only: uint_word_of_int_32 to_int_mod)
qed

lemma c_int_of_int [simp]: "c_int (real_of_int n) = n"
  by (simp add: c_int_def)

lemma c_int_of_int_diff [simp]: "c_int (real_of_int a - real_of_int b) = a - b"
  using c_int_of_int [of "a - b"] by (simp del: c_int_of_int)

lemma c_int_between:
  assumes "real_of_int a \<le> x" and "x \<le> real_of_int b"
  shows "a \<le> c_int x \<and> c_int x \<le> b"
proof (cases "0 \<le> x")
  case True
  have "a \<le> \<lfloor>x\<rfloor>" using assms(1) by (simp add: le_floor_iff)
  moreover have "\<lfloor>x\<rfloor> \<le> b" using assms(2) by (simp add: floor_le_iff)
  ultimately show ?thesis using True by (simp add: c_int_def)
next
  case False
  have "\<lceil>x\<rceil> \<le> b" using assms(2) by (simp add: ceiling_le_iff)
  moreover have "a \<le> \<lceil>x\<rceil>" using assms(1) by (simp add: le_ceiling_iff)
  ultimately show ?thesis using False by (simp add: c_int_def)
qed

section \<open>The waveform engine: what an update leaves alone\<close>

lemma Led_update_startTime [simp]: "startTime (fst (Led_update now l h)) = startTime l"
  by (simp add: Led_update_def Let_def case_prod_beta)

lemma Led_update_config [simp]:
  "mode (fst (Led_update now l h)) = mode l"
  "period (fst (Led_update now l h)) = period l"
  "phase (fst (Led_update now l h)) = phase l"
  "delay (fst (Led_update now l h)) = delay l"
  "minBright (fst (Led_update now l h)) = minBright l"
  "maxBright (fst (Led_update now l h)) = maxBright l"
  "pin (fst (Led_update now l h)) = pin l"
  by (simp_all add: Led_update_def Let_def case_prod_beta)

lemma Led_delta_update [simp]: "Led_delta t (fst (Led_update now l h)) = Led_delta t l"
  by (simp add: Led_delta_def)

section \<open>The waveform engine: ramps\<close>

lemma Led_waveform_ramp:
  "mode l = LedMode_ramp \<Longrightarrow>
   Led_waveform delta l h =
     (minBright l + c_int (real_of_int (maxBright l - minBright l)
        * (real_of_int (min (period l) delta) / real_of_int (period l))), h)"
  by (simp add: Led_waveform_def)

text \<open>A ramp that has run for its whole period, with a positive period.\<close>

lemma ramp_complete:
  assumes "mode l = LedMode_ramp" and "0 < period l" and "period l \<le> Led_delta now l"
  shows "lastValue (fst (Led_update now l h)) = maxBright l"
    and "snd (Led_update now l h)
         = (if maxBright l \<noteq> lastValue l then analogWrite (pin l) (maxBright l) h else h)"
proof -
  let ?d = "Led_delta now l"
  from assms have d: "0 \<le> ?d" by simp
  from assms have m: "min (period l) ?d = period l" by simp
  from assms have w: "Led_waveform ?d l h = (maxBright l, h)"
    by (simp add: Led_waveform_ramp m)
  from assms have "real_of_int (period l) / 2 - real_of_int ?d < 0" by simp
  with assms have f: "\<not> (real_of_int (period l) / 2 - real_of_int ?d) / (real_of_int (period l) / 2) > 0"
    by (simp add: divide_less_0_iff zero_less_divide_iff)
  then have s: "Led_smooth ?d l (maxBright l) = maxBright l"
    by (simp add: Led_smooth_def Let_def)
  from d w s show "lastValue (fst (Led_update now l h)) = maxBright l"
    by (simp add: Led_update_def Let_def)
  from d w s show "snd (Led_update now l h)
         = (if maxBright l \<noteq> lastValue l then analogWrite (pin l) (maxBright l) h else h)"
    by (simp add: Led_update_def Let_def)
qed

text \<open>The update inside \<open>rampTo\<close> with no delay: at \<open>delta = 0\<close> nothing changes.\<close>

lemma Led_smooth_at_zero:
  "period l \<noteq> 0 \<Longrightarrow> Led_smooth 0 l v = lastValue l"
  by (simp add: Led_smooth_def Let_def)

lemma Led_delta_at_start: "delay l = 0 \<Longrightarrow> Led_delta (startTime l) l = 0"
  using Led_delta_offset [of l 0] by (simp add: to_int_def)

lemma Led_update_at_start:
  assumes "delay l = 0" and "period l \<noteq> 0"
  shows "Led_update (startTime l) l h = (l, snd (Led_waveform 0 l h))"
  using assms
  by (simp add: Led_update_def Let_def case_prod_beta Led_delta_at_start Led_smooth_at_zero)

lemma Led_rampTo_no_delay:
  assumes "pd \<noteq> 0"
  shows "Led_rampTo mx pd 0 l h =
     (l\<lparr>mode := LedMode_ramp, minBright := lastValue l, maxBright := mx,
        period := pd, delay := 0, startTime := millis h\<rparr>, h)"
proof -
  let ?l1 = "l\<lparr>mode := LedMode_ramp, minBright := lastValue l, maxBright := mx,
        period := pd, delay := 0, startTime := millis h\<rparr>"
  have "Led_update (startTime ?l1) ?l1 h = (?l1, snd (Led_waveform 0 ?l1 h))"
    by (rule Led_update_at_start) (simp_all add: assms)
  moreover have "snd (Led_waveform 0 ?l1 h) = h" by (simp add: Led_waveform_def)
  ultimately show ?thesis by (simp add: Led_rampTo_def)
qed

text \<open>
  C5. For a channel whose \<open>lastValue\<close> is 0, \<open>rampTo(100, 1000)\<close> seeds \<open>minBright\<close>
  with 0 and records the time of the call; the update at \<open>startTime + 1000\<close> stores
  exactly 100, and so does the update at \<open>startTime + 2000\<close>, whether or not the update
  at \<open>startTime + 1000\<close> came before it.
\<close>

theorem C5_ramp_reaches_target:
  assumes "lastValue l = 0"
  shows "minBright (fst (Led_rampTo 100 1000 0 l h)) = 0
     \<and> startTime (fst (Led_rampTo 100 1000 0 l h)) = millis h
     \<and> lastValue (fst (Led_rampTo 100 1000 0 l h)) = 0
     \<and> lastValue (fst (Led_update (millis h + 1000)
          (fst (Led_rampTo 100 1000 0 l h)) (snd (Led_rampTo 100 1000 0 l h)))) = 100
     \<and> lastValue (fst (Led_update (millis h + 2000)
          (fst (Led_rampTo 100 1000 0 l h)) (snd (Led_rampTo 100 1000 0 l h)))) = 100
     \<and> lastValue (fst (Led_update (millis h + 2000)
          (fst (Led_update (millis h + 1000)
             (fst (Led_rampTo 100 1000 0 l h)) (snd (Led_rampTo 100 1000 0 l h))))
          (snd (Led_update (millis h + 1000)
             (fst (Led_rampTo 100 1000 0 l h)) (snd (Led_rampTo 100 1000 0 l h)))))) = 100"
proof -
  let ?l1 = "l\<lparr>mode := LedMode_ramp, minBright := lastValue l, maxBright := 100,
        period := 1000, delay := 0, startTime := millis h\<rparr>"
  have r: "Led_rampTo 100 1000 0 l h = (?l1, h)"
    by (rule Led_rampTo_no_delay) simp
  have d1: "Led_delta (millis h + 1000) ?l1 = 1000"
    using Led_delta_offset [of ?l1 1000] by (simp add: to_int_def)
  have d2: "Led_delta (millis h + 2000) ?l1 = 2000"
    using Led_delta_offset [of ?l1 2000] by (simp add: to_int_def)
  have u1: "lastValue (fst (Led_update (millis h + 1000) ?l1 h')) = 100" for h'
    using ramp_complete(1) [of ?l1 "millis h + 1000" h'] d1 by simp
  have u2: "lastValue (fst (Led_update (millis h + 2000) ?l1 h')) = 100" for h'
    using ramp_complete(1) [of ?l1 "millis h + 2000" h'] d2 by simp
  let ?l2 = "fst (Led_update (millis h + 1000) ?l1 h)"
  have u3: "lastValue (fst (Led_update (millis h + 2000) ?l2 h')) = 100" for h'
    using ramp_complete(1) [of ?l2 "millis h + 2000" h'] d2 by simp
  show ?thesis
    using assms u1 u2 u3 by (simp add: r)
qed

theorem C5_ramp_reaches_target_witness:
  "lastValue (Led_new 3) = 0
   \<and> minBright (fst (Led_rampTo 100 1000 0 (Led_new 3) hw0)) = 0
   \<and> lastValue (fst (Led_update (millis hw0 + 1000)
          (fst (Led_rampTo 100 1000 0 (Led_new 3) hw0)) (snd (Led_rampTo 100 1000 0 (Led_new 3) hw0)))) = 100
   \<and> lastValue (fst (Led_update (millis hw0 + 2000)
          (fst (Led_rampTo 100 1000 0 (Led_new 3) hw0)) (snd (Led_rampTo 100 1000 0 (Led_new 3) hw0)))) = 100"
proof -
  have h: "lastValue (Led_new 3) = 0" by (simp add: Led_new_def)
  from C5_ramp_reaches_target [OF h, of hw0] h show ?thesis by blast
qed

section \<open>The waveform engine: the activation delay\<close>

text \<open>
  C9. While \<open>delta = now - startTime - delay\<close>, as \<open>update\<close> computes it, is negative,
  \<open>update(now)\<close> changes nothing: the channel, the output log and the random source are
  as before. Read on the integers, with \<open>now\<close> being \<open>k\<close> milliseconds after
  \<open>startTime\<close>, this is every \<open>k - delay\<close> from -32768 to -1, which covers the whole
  delay window (\<open>0 \<le> k < delay\<close>).
\<close>

theorem C9_update_before_activation_is_noop:
  "(Led_delta now l < 0 \<longrightarrow> Led_update now l h = (l, h))
   \<and> (- 32768 \<le> k - delay l \<and> k - delay l < 0
        \<longrightarrow> Led_update (startTime l + word_of_int k) l h = (l, h))"
proof -
  have a: "Led_update t l h = (l, h)" if "Led_delta t l < 0" for t
    using that by (simp add: Led_update_def)
  have "Led_delta (startTime l + word_of_int k) l < 0"
    if "- 32768 \<le> k - delay l" "k - delay l < 0"
    using that by (simp add: Led_delta_offset to_int_id)
  with a show ?thesis by blast
qed

theorem C9_update_before_activation_is_noop_witness:
  "Led_delta 1200 led_waiting < 0
   \<and> Led_update 1200 led_waiting hw0 = (led_waiting, hw0)
   \<and> - 32768 \<le> 200 - delay led_waiting \<and> 200 - delay led_waiting < 0
   \<and> Led_update (startTime led_waiting + word_of_int 200) led_waiting hw0 = (led_waiting, hw0)"
proof -
  have d: "Led_delta 1200 led_waiting < 0"
    by (simp add: Led_delta_def led_waiting_def Led_new_def to_int_def)
  have k: "- 32768 \<le> 200 - delay led_waiting \<and> 200 - delay led_waiting < 0"
    by (simp add: led_waiting_def Led_new_def)
  from C9_update_before_activation_is_noop [of 1200 led_waiting hw0 200] d k
  show ?thesis by blast
qed

section \<open>The waveform engine: ranges of the waveforms and of the cross-fade\<close>

lemma interp_between:
  fixes a b :: int and v :: real
  assumes "0 \<le> v" and "v \<le> 1"
  shows "min a b \<le> a + c_int (real_of_int (b - a) * v)
       \<and> a + c_int (real_of_int (b - a) * v) \<le> max a b"
proof (cases "a \<le> b")
  case True
  then have "real_of_int 0 \<le> real_of_int (b - a) * v"
    using assms by simp
  moreover have "real_of_int (b - a) * v \<le> real_of_int (b - a)"
    using True assms by (simp add: mult_left_le)
  ultimately have "0 \<le> c_int (real_of_int (b - a) * v) \<and> c_int (real_of_int (b - a) * v) \<le> b - a"
    by (rule c_int_between)
  with True show ?thesis by simp
next
  case False
  then have "real_of_int (b - a) * v \<le> real_of_int 0"
    using assms by (simp add: mult_le_0_iff)
  moreover have "real_of_int (b - a) \<le> real_of_int (b - a) * v"
    using False assms by (simp add: mult_left_le_one_le mult_le_cancel_left2)
  ultimately have "b - a \<le> c_int (real_of_int (b - a) * v) \<and> c_int (real_of_int (b - a) * v) \<le> 0"
    by (intro c_int_between)
  with False show ?thesis by simp
qed

lemma ramp_fraction:
  assumes "0 < p" and "0 \<le> d"
  shows "0 \<le> real_of_int (min p d) / real_of_int p \<and> real_of_int (min p d) / real_of_int p \<le> 1"
  using assms by (simp add: min_def)

lemma raised_cosine: "0 \<le> (cos x + 1) / 2 \<and> (cos x + 1) / 2 \<le> (1::real)"
proof -
  have "- 1 \<le> cos x" by (rule cos_ge_minus_one)
  then have "0 \<le> cos x + 1" by linarith
  then show ?thesis by simp
qed

lemma c_rem_nonneg: "0 \<le> a \<Longrightarrow> 0 < b \<Longrightarrow> c_rem a b = a mod b"
  by (cases "a = 0") (simp_all add: c_rem_def)

lemma random_max_bounds:
  assumes "0 < n"
  shows "0 \<le> fst (random_max n h) \<and> fst (random_max n h) < n"
  using assms by (simp add: random_max_def random_raw_def c_rem_nonneg)

lemma random_range_bounds:
  assumes "mn < mx"
  shows "mn \<le> fst (random_range mn mx h) \<and> fst (random_range mn mx h) < mx"
  using assms random_max_bounds [of "mx - mn" h]
  by (simp add: random_range_def case_prod_beta)

lemma random_range_empty: "mx \<le> mn \<Longrightarrow> random_range mn mx h = (mn, h)"
  by (simp add: random_range_def)

text \<open>The smoothing factor is positive exactly during the first half period.\<close>

lemma factor_pos_iff:
  assumes "0 \<le> p" and "0 \<le> d"
  shows "(real_of_int p / 2 - real_of_int d) / (real_of_int p / 2) > 0 \<longleftrightarrow> 2 * d < p"
proof (cases "p = 0")
  case True
  then show ?thesis using assms by simp
next
  case False
  with assms have "0 < real_of_int p / 2" by simp
  then have "(real_of_int p / 2 - real_of_int d) / (real_of_int p / 2) > 0
       \<longleftrightarrow> real_of_int p / 2 - real_of_int d > 0"
    by (simp add: zero_less_divide_iff)
  also have "\<dots> \<longleftrightarrow> real_of_int (2 * d) < real_of_int p" by (simp add: field_simps)
  also have "\<dots> \<longleftrightarrow> 2 * d < p" by (simp only: of_int_less_iff)
  finally show ?thesis .
qed

lemma Led_smooth_after:
  assumes "0 \<le> period l" and "period l \<le> 2 * delta"
  shows "Led_smooth delta l v = v"
proof -
  from assms have "0 \<le> delta" by simp
  with assms factor_pos_iff [of "period l" delta] show ?thesis
    by (simp add: Led_smooth_def Let_def)
qed

lemma blend_between:
  fixes f x y :: real
  assumes "0 \<le> f" and "f \<le> 1"
  shows "min x y \<le> f * x + (1 - f) * y \<and> f * x + (1 - f) * y \<le> max x y"
proof -
  have a: "f * x + (1 - f) * y = y + f * (x - y)" by (simp add: algebra_simps)
  show ?thesis
  proof (cases "x \<le> y")
    case True
    then have "x - y \<le> 0" by simp
    then have "f * (x - y) \<le> 0 * (x - y)" and "1 * (x - y) \<le> f * (x - y)"
      using assms by (intro mult_right_mono_neg; simp)+
    then have "x \<le> y + f * (x - y)" and "y + f * (x - y) \<le> y" by simp_all
    with True show ?thesis by (simp only: a min_absorb1 max_absorb2)
  next
    case False
    then have "0 \<le> x - y" by simp
    then have "0 * (x - y) \<le> f * (x - y)" and "f * (x - y) \<le> 1 * (x - y)"
      using assms by (intro mult_right_mono; simp)+
    then have "y \<le> y + f * (x - y)" and "y + f * (x - y) \<le> x" by simp_all
    moreover from False have "y \<le> x" by simp
    ultimately show ?thesis by (simp only: a min_absorb2 max_absorb1)
  qed
qed

lemma Led_smooth_between:
  assumes "0 \<le> period l" and "0 \<le> delta"
  shows "min (lastValue l) v \<le> Led_smooth delta l v \<and> Led_smooth delta l v \<le> max (lastValue l) v"
proof (cases "2 * delta < period l")
  case False
  then show ?thesis using assms by (simp add: Led_smooth_after)
next
  case True
  let ?f = "(real_of_int (period l) / 2 - real_of_int delta) / (real_of_int (period l) / 2)"
  from True assms have p: "0 < real_of_int (period l) / 2" by simp
  have pos: "0 < ?f" using True assms factor_pos_iff [of "period l" delta] by simp
  have "?f = 1 - real_of_int delta / (real_of_int (period l) / 2)"
    using p by (simp add: field_simps)
  moreover have "0 \<le> real_of_int delta / (real_of_int (period l) / 2)"
    using p assms by simp
  ultimately have le1: "?f \<le> 1" by simp
  let ?x = "?f * real_of_int (lastValue l) + (1 - ?f) * real_of_int v"
  from blend_between [of ?f "real_of_int (lastValue l)" "real_of_int v"] pos le1
  have "real_of_int (min (lastValue l) v) \<le> ?x \<and> ?x \<le> real_of_int (max (lastValue l) v)"
    by (simp only: of_int_min of_int_max)
  then have "min (lastValue l) v \<le> c_int ?x \<and> c_int ?x \<le> max (lastValue l) v"
    using c_int_between by blast
  with pos show ?thesis by (simp add: Led_smooth_def Let_def)
qed

section \<open>The waveform engine: the value an update stores and emits\<close>

lemma between_within:
  fixes x a b lo hi :: int
  assumes "min a b \<le> x \<and> x \<le> max a b" and "lo \<le> a" "lo \<le> b" "a \<le> hi" "b \<le> hi"
  shows "lo \<le> x \<and> x \<le> hi"
  using assms by (simp add: min_def max_def split: if_splits)

lemma Led_update_idle: "Led_delta now l < 0 \<Longrightarrow> Led_update now l h = (l, h)"
  by (simp add: Led_update_def)

lemma Led_update_value:
  "0 \<le> Led_delta now l \<Longrightarrow>
   lastValue (fst (Led_update now l h))
     = Led_smooth (Led_delta now l) l (fst (Led_waveform (Led_delta now l) l h))"
  by (simp add: Led_update_def Let_def case_prod_beta)

lemma pwm_random_range [simp]: "pwm (snd (random_range a b h)) = pwm h"
  by (simp add: random_range_def random_max_def random_raw_def case_prod_beta)

lemma pwm_Led_waveform [simp]: "pwm (snd (Led_waveform d l h)) = pwm h"
  by (cases "mode l") (simp_all add: Led_waveform_def)

lemma Led_update_pwm:
  "pwm (snd (Led_update now l h)) =
     (if lastValue (fst (Led_update now l h)) \<noteq> lastValue l
      then (pin l, lastValue (fst (Led_update now l h))) # pwm h else pwm h)"
  by (simp add: Led_update_def Let_def case_prod_beta analogWrite_def)

lemma waveform_off: "mode l = LedMode_off \<Longrightarrow> fst (Led_waveform d l h) = 0"
  by (simp add: Led_waveform_def)

lemma waveform_on: "mode l = LedMode_on \<Longrightarrow> fst (Led_waveform d l h) = maxBright l"
  by (simp add: Led_waveform_def)

lemma waveform_ramp_between:
  assumes "mode l = LedMode_ramp" and "0 < period l" and "0 \<le> d"
  shows "min (minBright l) (maxBright l) \<le> fst (Led_waveform d l h)
       \<and> fst (Led_waveform d l h) \<le> max (minBright l) (maxBright l)"
proof -
  let ?v = "real_of_int (min (period l) d) / real_of_int (period l)"
  from assms have "0 \<le> ?v" and "?v \<le> 1"
    using ramp_fraction [of "period l" d] by simp_all
  then have "min (minBright l) (maxBright l)
        \<le> minBright l + c_int (real_of_int (maxBright l - minBright l) * ?v)
     \<and> minBright l + c_int (real_of_int (maxBright l - minBright l) * ?v)
        \<le> max (minBright l) (maxBright l)"
    by (rule interp_between)
  with assms show ?thesis by (simp add: Led_waveform_ramp)
qed

lemma waveform_sinusoid_between:
  assumes "mode l = LedMode_sinusoid"
  shows "min (minBright l) (maxBright l) \<le> fst (Led_waveform d l h)
       \<and> fst (Led_waveform d l h) \<le> max (minBright l) (maxBright l)"
proof -
  let ?x = "2 * pi * (real_of_int (c_rem (to_int (d + phase l)) (period l))
                        / real_of_int (period l - 1) - 1 / 2)"
  let ?v = "(cos ?x + 1) / 2"
  have "0 \<le> ?v" and "?v \<le> 1"
    using raised_cosine [of ?x] by simp_all
  then have "min (minBright l) (maxBright l)
        \<le> minBright l + c_int (real_of_int (maxBright l - minBright l) * ?v)
     \<and> minBright l + c_int (real_of_int (maxBright l - minBright l) * ?v)
        \<le> max (minBright l) (maxBright l)"
    by (rule interp_between)
  with assms show ?thesis by (simp add: Led_waveform_def Let_def)
qed

lemma waveform_flicker_sample:
  assumes "mode l = LedMode_flicker" and "c_rem d 29 = 0"
  shows "fst (Led_waveform d l h) = fst (random_range (minBright l) (maxBright l) h)"
  using assms by (simp add: Led_waveform_def)

lemma waveform_flicker_hold:
  assumes "mode l = LedMode_flicker" and "c_rem d 29 \<noteq> 0"
  shows "Led_waveform d l h = (lastValue l, h)"
  using assms by (simp add: Led_waveform_def)

text \<open>Whatever the mode, the waveform stays between the configured bounds or holds the last value.\<close>

lemma waveform_in_byte:
  assumes "0 \<le> minBright l" "minBright l \<le> maxBright l" "maxBright l \<le> 255"
    and "0 \<le> lastValue l" "lastValue l \<le> 255"
    and "mode l = LedMode_ramp \<longrightarrow> 0 < period l" and "0 \<le> d"
  shows "0 \<le> fst (Led_waveform d l h) \<and> fst (Led_waveform d l h) \<le> 255"
proof (cases "mode l")
  case LedMode_on
  with assms show ?thesis by (simp add: waveform_on)
next
  case LedMode_off
  then show ?thesis by (simp add: waveform_off)
next
  case LedMode_ramp
  with assms waveform_ramp_between [of l d h] show ?thesis by simp
next
  case LedMode_sinusoid
  with assms waveform_sinusoid_between [of l d h] show ?thesis by simp
next
  case LedMode_flicker
  show ?thesis
  proof (cases "c_rem d 29 = 0")
    case False
    with LedMode_flicker assms show ?thesis by (simp add: waveform_flicker_hold)
  next
    case True
    show ?thesis
    proof (cases "minBright l < maxBright l")
      case True
      with random_range_bounds [of "minBright l" "maxBright l" h] assms
        waveform_flicker_sample [OF LedMode_flicker \<open>c_rem d 29 = 0\<close>, of h]
      show ?thesis by simp
    next
      case False
      with assms waveform_flicker_sample [OF LedMode_flicker \<open>c_rem d 29 = 0\<close>, of h]
      show ?thesis by (simp add: random_range_empty)
    qed
  qed
qed

lemma update_in_byte:
  assumes "0 \<le> minBright l" "minBright l \<le> maxBright l" "maxBright l \<le> 255"
    and "0 \<le> lastValue l" "lastValue l \<le> 255"
    and "0 \<le> period l" and "mode l = LedMode_ramp \<longrightarrow> 0 < period l"
  shows "0 \<le> lastValue (fst (Led_update now l h)) \<and> lastValue (fst (Led_update now l h)) \<le> 255"
proof (cases "Led_delta now l < 0")
  case True
  with assms show ?thesis by (simp add: Led_update_idle)
next
  case False
  then have d: "0 \<le> Led_delta now l" by simp
  let ?w = "fst (Led_waveform (Led_delta now l) l h)"
  from waveform_in_byte [OF assms(1-5) assms(7) d, of h]
  have w: "0 \<le> ?w \<and> ?w \<le> 255" .
  from Led_smooth_between [OF assms(6) d, of ?w]
  have "min (lastValue l) ?w \<le> Led_smooth (Led_delta now l) l ?w
      \<and> Led_smooth (Led_delta now l) l ?w \<le> max (lastValue l) ?w" .
  then have "0 \<le> Led_smooth (Led_delta now l) l ?w \<and> Led_smooth (Led_delta now l) l ?w \<le> 255"
    by (rule between_within) (use w assms(4,5) in simp_all)
  then show ?thesis
    by (simp add: Led_update_value [OF d])
qed

lemma update_after_smoothing:
  assumes "0 \<le> Led_delta now l" and "0 \<le> period l" and "period l \<le> 2 * Led_delta now l"
  shows "lastValue (fst (Led_update now l h)) = fst (Led_waveform (Led_delta now l) l h)"
  using assms by (simp add: Led_update_value Led_smooth_after)

text \<open>
  C3, as amended. Let \<open>0 \<le> minBright \<le> maxBright \<le> 255\<close>, \<open>lastValue\<close> in \<open>[0,255]\<close>
  and the period be non-negative (positive for a ramp, above 1 for a sinusoid, so that
  no quotient of \<open>update\<close> has a zero divisor). Then the value \<open>v\<close> that \<open>update\<close>
  stores in \<open>lastValue\<close> is in \<open>[0,255]\<close> at every call time, and the only value it
  can emit is \<open>v\<close>. After the smoothing window (\<open>period \<le> 2 * delta\<close>) \<open>v\<close> is in
  \<open>[minBright, maxBright]\<close> for Ramp and Sinusoid, exactly \<open>maxBright\<close> for On, exactly
  0 for Off, and at a flicker sampling instant in \<open>[minBright, maxBright)\<close> when
  \<open>minBright < maxBright\<close> and equal to \<open>minBright\<close> when the two bounds coincide.
\<close>

theorem C3_update_range:
  assumes "0 \<le> minBright l" "minBright l \<le> maxBright l" "maxBright l \<le> 255"
    and "0 \<le> lastValue l" "lastValue l \<le> 255"
    and "0 \<le> period l" and "mode l = LedMode_ramp \<longrightarrow> 0 < period l"
    and "mode l = LedMode_sinusoid \<longrightarrow> 1 < period l"
  shows "(let v = lastValue (fst (Led_update now l h)); d = Led_delta now l in
      0 \<le> v \<and> v \<le> 255
      \<and> (pwm (snd (Led_update now l h)) = pwm h
           \<or> pwm (snd (Led_update now l h)) = (pin l, v) # pwm h)
      \<and> (0 \<le> d \<and> period l \<le> 2 * d \<longrightarrow>
           (case mode l of
              LedMode_on \<Rightarrow> v = maxBright l
            | LedMode_off \<Rightarrow> v = 0
            | LedMode_ramp \<Rightarrow> minBright l \<le> v \<and> v \<le> maxBright l
            | LedMode_sinusoid \<Rightarrow> minBright l \<le> v \<and> v \<le> maxBright l
            | LedMode_flicker \<Rightarrow>
                (c_rem d 29 = 0 \<longrightarrow>
                   (if minBright l < maxBright l then minBright l \<le> v \<and> v < maxBright l
                    else v = minBright l)))))"
proof -
  let ?v = "lastValue (fst (Led_update now l h))"
  let ?d = "Led_delta now l"
  have byte: "0 \<le> ?v \<and> ?v \<le> 255"
    using assms(1-7) by (rule update_in_byte)
  have log: "pwm (snd (Led_update now l h)) = pwm h
           \<or> pwm (snd (Led_update now l h)) = (pin l, ?v) # pwm h"
    by (simp add: Led_update_pwm)
  have after: "(case mode l of
              LedMode_on \<Rightarrow> ?v = maxBright l
            | LedMode_off \<Rightarrow> ?v = 0
            | LedMode_ramp \<Rightarrow> minBright l \<le> ?v \<and> ?v \<le> maxBright l
            | LedMode_sinusoid \<Rightarrow> minBright l \<le> ?v \<and> ?v \<le> maxBright l
            | LedMode_flicker \<Rightarrow>
                (c_rem ?d 29 = 0 \<longrightarrow>
                   (if minBright l < maxBright l then minBright l \<le> ?v \<and> ?v < maxBright l
                    else ?v = minBright l)))"
    if d: "0 \<le> ?d" and p: "period l \<le> 2 * ?d"
  proof -
    have v: "?v = fst (Led_waveform ?d l h)"
      using d assms(6) p by (rule update_after_smoothing)
    show ?thesis
    proof (cases "mode l")
      case LedMode_on
      then show ?thesis by (simp add: v waveform_on)
    next
      case LedMode_off
      then show ?thesis by (simp add: v waveform_off)
    next
      case LedMode_ramp
      with assms waveform_ramp_between [of l ?d h] d show ?thesis by (simp add: v)
    next
      case LedMode_sinusoid
      with assms waveform_sinusoid_between [of l ?d h] show ?thesis by (simp add: v)
    next
      case LedMode_flicker
      then show ?thesis
        using random_range_bounds [of "minBright l" "maxBright l" h]
        by (simp add: v waveform_flicker_sample random_range_empty)
    qed
  qed
  from byte log after show ?thesis by (simp only: Let_def) blast
qed

theorem C3_update_range_witness:
  "0 \<le> minBright led_flicker \<and> minBright led_flicker \<le> maxBright led_flicker
   \<and> maxBright led_flicker \<le> 255
   \<and> 0 \<le> lastValue led_flicker \<and> lastValue led_flicker \<le> 255
   \<and> 0 \<le> period led_flicker \<and> mode led_flicker = LedMode_flicker
   \<and> Led_delta 2900 led_flicker = 2900 \<and> period led_flicker \<le> 2 * 2900
   \<and> c_rem 2900 29 = 0 \<and> minBright led_flicker < maxBright led_flicker
   \<and> minBright led_flicker \<le> lastValue (fst (Led_update 2900 led_flicker hw0))
   \<and> lastValue (fst (Led_update 2900 led_flicker hw0)) < maxBright led_flicker
   \<and> lastValue (fst (Led_update 2900 led_flicker hw0)) \<le> 255
   \<and> lastValue (fst (Led_update 2900 led_flicker hw0)) = 7
   \<and> mode led_odd_period = LedMode_sinusoid \<and> 1 < period led_odd_period
   \<and> Led_delta 91 led_odd_period = 91 \<and> period led_odd_period \<le> 2 * 91
   \<and> minBright led_odd_period \<le> lastValue (fst (Led_update 91 led_odd_period hw0))
   \<and> lastValue (fst (Led_update 91 led_odd_period hw0)) \<le> maxBright led_odd_period
   \<and> mode led_bright = LedMode_ramp \<and> 0 < period led_bright
   \<and> Led_delta 1000 led_bright = 1000 \<and> period led_bright \<le> 2 * 1000
   \<and> minBright led_bright \<le> lastValue (fst (Led_update 1000 led_bright hw0))
   \<and> lastValue (fst (Led_update 1000 led_bright hw0)) \<le> maxBright led_bright"
proof -
  have pre: "0 \<le> minBright led_flicker" "minBright led_flicker \<le> maxBright led_flicker"
    "maxBright led_flicker \<le> 255" "0 \<le> lastValue led_flicker" "lastValue led_flicker \<le> 255"
    "0 \<le> period led_flicker" "mode led_flicker = LedMode_ramp \<longrightarrow> 0 < period led_flicker"
    "mode led_flicker = LedMode_sinusoid \<longrightarrow> 1 < period led_flicker"
    by (simp_all add: led_flicker_def Led_new_def)
  have m: "mode led_flicker = LedMode_flicker" "minBright led_flicker < maxBright led_flicker"
    "period led_flicker \<le> 2 * 2900"
    by (simp_all add: led_flicker_def Led_new_def)
  have d: "Led_delta 2900 led_flicker = 2900"
    by (simp add: Led_delta_def led_flicker_def Led_new_def to_int_def)
  have r: "c_rem 2900 29 = 0" by (simp add: c_rem_def)
  have w: "fst (Led_waveform 2900 led_flicker hw0) = 7"
    by (simp add: Led_waveform_def r random_range_def random_max_def random_raw_def
          led_flicker_def Led_new_def hw0_def c_rem_def)
  have s: "Led_smooth 2900 led_flicker 7 = 7"
    by (simp add: Led_smooth_def led_flicker_def Led_new_def)
  have v: "lastValue (fst (Led_update 2900 led_flicker hw0)) = 7"
    by (simp add: Led_update_def d w s case_prod_beta)
  from C3_update_range [OF pre, of 2900 hw0] m d r
  have "minBright led_flicker \<le> lastValue (fst (Led_update 2900 led_flicker hw0))
      \<and> lastValue (fst (Led_update 2900 led_flicker hw0)) < maxBright led_flicker
      \<and> lastValue (fst (Led_update 2900 led_flicker hw0)) \<le> 255"
    by (simp add: Let_def)
  with pre m d r v have flicker:
    "0 \<le> minBright led_flicker \<and> minBright led_flicker \<le> maxBright led_flicker
     \<and> maxBright led_flicker \<le> 255
     \<and> 0 \<le> lastValue led_flicker \<and> lastValue led_flicker \<le> 255
     \<and> 0 \<le> period led_flicker \<and> mode led_flicker = LedMode_flicker
     \<and> Led_delta 2900 led_flicker = 2900 \<and> period led_flicker \<le> 2 * 2900
     \<and> c_rem 2900 29 = 0 \<and> minBright led_flicker < maxBright led_flicker
     \<and> minBright led_flicker \<le> lastValue (fst (Led_update 2900 led_flicker hw0))
     \<and> lastValue (fst (Led_update 2900 led_flicker hw0)) < maxBright led_flicker
     \<and> lastValue (fst (Led_update 2900 led_flicker hw0)) \<le> 255
     \<and> lastValue (fst (Led_update 2900 led_flicker hw0)) = 7"
    by blast
  have pre_s: "0 \<le> minBright led_odd_period" "minBright led_odd_period \<le> maxBright led_odd_period"
    "maxBright led_odd_period \<le> 255" "0 \<le> lastValue led_odd_period"
    "lastValue led_odd_period \<le> 255" "0 \<le> period led_odd_period"
    "mode led_odd_period = LedMode_ramp \<longrightarrow> 0 < period led_odd_period"
    "mode led_odd_period = LedMode_sinusoid \<longrightarrow> 1 < period led_odd_period"
    by (simp_all add: led_odd_period_def Led_new_def)
  have m_s: "mode led_odd_period = LedMode_sinusoid" "1 < period led_odd_period"
    "period led_odd_period \<le> 2 * 91"
    by (simp_all add: led_odd_period_def Led_new_def)
  have d_s: "Led_delta 91 led_odd_period = 91"
    by (simp add: Led_delta_def led_odd_period_def Led_new_def to_int_def)
  from C3_update_range [OF pre_s, of 91 hw0] m_s d_s
  have "minBright led_odd_period \<le> lastValue (fst (Led_update 91 led_odd_period hw0))
      \<and> lastValue (fst (Led_update 91 led_odd_period hw0)) \<le> maxBright led_odd_period"
    by (simp add: Let_def)
  with m_s d_s have sinusoid:
    "mode led_odd_period = LedMode_sinusoid \<and> 1 < period led_odd_period
     \<and> Led_delta 91 led_odd_period = 91 \<and> period led_odd_period \<le> 2 * 91
     \<and> minBright led_odd_period \<le> lastValue (fst (Led_update 91 led_odd_period hw0))
     \<and> lastValue (fst (Led_update 91 led_odd_period hw0)) \<le> maxBright led_odd_period"
    by blast
  have pre_r: "0 \<le> minBright led_bright" "minBright led_bright \<le> maxBright led_bright"
    "maxBright led_bright \<le> 255" "0 \<le> lastValue led_bright"
    "lastValue led_bright \<le> 255" "0 \<le> period led_bright"
    "mode led_bright = LedMode_ramp \<longrightarrow> 0 < period led_bright"
    "mode led_bright = LedMode_sinusoid \<longrightarrow> 1 < period led_bright"
    by (simp_all add: led_bright_def Led_new_def)
  have m_r: "mode led_bright = LedMode_ramp" "0 < period led_bright"
    "period led_bright \<le> 2 * 1000"
    by (simp_all add: led_bright_def Led_new_def)
  have d_r: "Led_delta 1000 led_bright = 1000"
    by (simp add: Led_delta_def led_bright_def Led_new_def to_int_def)
  from C3_update_range [OF pre_r, of 1000 hw0] m_r d_r
  have "minBright led_bright \<le> lastValue (fst (Led_update 1000 led_bright hw0))
      \<and> lastValue (fst (Led_update 1000 led_bright hw0)) \<le> maxBright led_bright"
    by (simp add: Let_def)
  with m_r d_r have ramp:
    "mode led_bright = LedMode_ramp \<and> 0 < period led_bright
     \<and> Led_delta 1000 led_bright = 1000 \<and> period led_bright \<le> 2 * 1000
     \<and> minBright led_bright \<le> lastValue (fst (Led_update 1000 led_bright hw0))
     \<and> lastValue (fst (Led_update 1000 led_bright hw0)) \<le> maxBright led_bright"
    by blast
  from flicker sinusoid ramp show ?thesis by (intro conjI) (elim conjE, assumption)+
qed

text \<open>
  C3 as stated fails when \<open>minBright = maxBright\<close>, which \<open>minBright \<le> maxBright\<close>
  allows: at a sampling instant after the smoothing window the output is \<open>minBright\<close>,
  and the interval \<open>[minBright, maxBright)\<close> is empty.
\<close>

theorem C3_flat_flicker_counterexample:
  "0 \<le> minBright led_flat_flicker \<and> minBright led_flat_flicker \<le> maxBright led_flat_flicker
   \<and> maxBright led_flat_flicker \<le> 255
   \<and> 0 \<le> lastValue led_flat_flicker \<and> lastValue led_flat_flicker \<le> 255
   \<and> mode led_flat_flicker = LedMode_flicker
   \<and> Led_delta 2900 led_flat_flicker = 2900 \<and> c_rem 2900 29 = 0
   \<and> period led_flat_flicker \<le> 2 * 2900
   \<and> lastValue (fst (Led_update 2900 led_flat_flicker hw0)) = 5
   \<and> \<not> (minBright led_flat_flicker \<le> lastValue (fst (Led_update 2900 led_flat_flicker hw0))
          \<and> lastValue (fst (Led_update 2900 led_flat_flicker hw0)) < maxBright led_flat_flicker)"
proof -
  have d: "Led_delta 2900 led_flat_flicker = 2900"
    by (simp add: Led_delta_def led_flat_flicker_def Led_new_def to_int_def)
  have r: "c_rem 2900 29 = 0" by (simp add: c_rem_def)
  have w: "Led_waveform 2900 led_flat_flicker hw0 = (5, hw0)"
    by (simp add: Led_waveform_def r random_range_def led_flat_flicker_def Led_new_def)
  have s: "Led_smooth 2900 led_flat_flicker 5 = 5"
    by (simp add: Led_smooth_def led_flat_flicker_def Led_new_def)
  have v: "lastValue (fst (Led_update 2900 led_flat_flicker hw0)) = 5"
    by (simp add: Led_update_def d w s)
  show ?thesis
    by (simp add: d r v) (simp add: led_flat_flicker_def Led_new_def)
qed

section \<open>The waveform engine: flicker\<close>

lemma flicker_hold:
  assumes "mode l = LedMode_flicker" and "0 \<le> period l" and "outside_window now l"
    and "\<not> (0 \<le> Led_delta now l \<and> c_rem (Led_delta now l) 29 = 0)"
  shows "Led_update now l h = (l, h)"
proof (cases "Led_delta now l < 0")
  case True
  then show ?thesis by (rule Led_update_idle)
next
  case False
  with assms(4) have "c_rem (Led_delta now l) 29 \<noteq> 0" by simp
  with assms(1) have w: "Led_waveform (Led_delta now l) l h = (lastValue l, h)"
    by (rule waveform_flicker_hold)
  from False assms(3) have "period l \<le> 2 * Led_delta now l"
    by (simp add: outside_window_def)
  with assms(2) have "Led_smooth (Led_delta now l) l (lastValue l) = lastValue l"
    by (rule Led_smooth_after)
  with False w show ?thesis by (simp add: Led_update_def)
qed

lemma flicker_sample:
  assumes "mode l = LedMode_flicker" and "0 \<le> period l" and "outside_window now l"
    and "0 \<le> Led_delta now l" and "c_rem (Led_delta now l) 29 = 0"
  shows "lastValue (fst (Led_update now l h)) = fst (random_range (minBright l) (maxBright l) h)"
proof -
  from assms(3,4) have "period l \<le> 2 * Led_delta now l"
    by (simp add: outside_window_def)
  with assms(4,2) have "lastValue (fst (Led_update now l h))
      = fst (Led_waveform (Led_delta now l) l h)"
    by (intro update_after_smoothing)
  with assms(1,5) show ?thesis by (simp add: waveform_flicker_sample)
qed

lemma flicker_step_range:
  assumes "mode l = LedMode_flicker" and "0 \<le> period l" and "outside_window now l"
    and "minBright l \<le> lastValue l" and "lastValue l < maxBright l"
  shows "minBright l \<le> lastValue (fst (Led_update now l h))
       \<and> lastValue (fst (Led_update now l h)) < maxBright l"
proof (cases "0 \<le> Led_delta now l \<and> c_rem (Led_delta now l) 29 = 0")
  case False
  with assms show ?thesis by (simp add: flicker_hold)
next
  case True
  from assms(4,5) have "minBright l < maxBright l" by simp
  then show ?thesis
    using random_range_bounds [of "minBright l" "maxBright l" h] True assms(1-3)
    by (simp add: flicker_sample)
qed

lemma Led_updates_snoc:
  "Led_updates (pre @ [now]) l h
     = Led_update now (fst (Led_updates pre l h)) (snd (Led_updates pre l h))"
  by (induction pre arbitrary: l h) (simp_all add: case_prod_beta)

lemma Led_updates_config:
  "mode (fst (Led_updates nows l h)) = mode l
   \<and> period (fst (Led_updates nows l h)) = period l
   \<and> minBright (fst (Led_updates nows l h)) = minBright l
   \<and> maxBright (fst (Led_updates nows l h)) = maxBright l
   \<and> Led_delta t (fst (Led_updates nows l h)) = Led_delta t l"
  by (induction nows arbitrary: l h) (simp_all add: case_prod_beta)

lemma outside_window_update [simp]:
  "outside_window t (fst (Led_update now l h)) = outside_window t l"
  by (simp add: outside_window_def)

lemma outside_window_updates:
  "outside_window t (fst (Led_updates nows l h)) = outside_window t l"
  using Led_updates_config [of nows l h t] by (simp add: outside_window_def)

lemma flicker_updates_range:
  assumes "mode l = LedMode_flicker" and "0 \<le> period l"
    and "\<forall>t \<in> set nows. outside_window t l"
    and "minBright l \<le> lastValue l" and "lastValue l < maxBright l"
  shows "minBright l \<le> lastValue (fst (Led_updates nows l h))
       \<and> lastValue (fst (Led_updates nows l h)) < maxBright l"
  using assms
proof (induction nows arbitrary: l h)
  case Nil
  then show ?case by simp
next
  case (Cons now nows)
  let ?l1 = "fst (Led_update now l h)"
  let ?h1 = "snd (Led_update now l h)"
  from Cons.prems(3) have o: "outside_window now l" and os: "\<forall>t \<in> set nows. outside_window t ?l1"
    by simp_all
  from flicker_step_range [OF Cons.prems(1,2) o Cons.prems(4,5), of h]
  have "minBright ?l1 \<le> lastValue ?l1" and "lastValue ?l1 < maxBright ?l1" by simp_all
  with Cons.IH [of ?l1 ?h1] Cons.prems(1,2) os show ?case
    by (simp add: case_prod_beta)
qed

text \<open>
  C7, as amended. In Flicker mode with a non-negative period, across any sequence of
  \<open>update\<close> calls none of which falls inside the smoothing window: the stored output
  changes, and a value is emitted, only at calls where \<open>delta\<close> is a non-negative
  multiple of 29; the value stored at such a call lies in \<open>[minBright, maxBright)\<close>
  when \<open>minBright < maxBright\<close>; and when \<open>lastValue\<close> lies in \<open>[minBright, maxBright)\<close>
  as the sequence starts, it does so after every call. (Inside the smoothing window the
  sketch's rounded blend can lower a held value by one at any call, and nothing is
  stated.)
\<close>

theorem C7_flicker_changes_and_range:
  assumes "mode l = LedMode_flicker" and "0 \<le> period l"
    and "\<forall>t \<in> set (pre @ [now]). outside_window t l"
  shows "(lastValue (fst (Led_updates (pre @ [now]) l h)) \<noteq> lastValue (fst (Led_updates pre l h))
            \<longrightarrow> 0 \<le> Led_delta now l \<and> c_rem (Led_delta now l) 29 = 0)
     \<and> (pwm (snd (Led_updates (pre @ [now]) l h)) \<noteq> pwm (snd (Led_updates pre l h))
            \<longrightarrow> 0 \<le> Led_delta now l \<and> c_rem (Led_delta now l) 29 = 0)
     \<and> (0 \<le> Led_delta now l \<and> c_rem (Led_delta now l) 29 = 0 \<and> minBright l < maxBright l
            \<longrightarrow> minBright l \<le> lastValue (fst (Led_updates (pre @ [now]) l h))
              \<and> lastValue (fst (Led_updates (pre @ [now]) l h)) < maxBright l)
     \<and> (minBright l \<le> lastValue l \<and> lastValue l < maxBright l
            \<longrightarrow> minBright l \<le> lastValue (fst (Led_updates pre l h))
              \<and> lastValue (fst (Led_updates pre l h)) < maxBright l
              \<and> minBright l \<le> lastValue (fst (Led_updates (pre @ [now]) l h))
              \<and> lastValue (fst (Led_updates (pre @ [now]) l h)) < maxBright l)"
proof -
  let ?l1 = "fst (Led_updates pre l h)"
  let ?h1 = "snd (Led_updates pre l h)"
  have cfg: "mode ?l1 = LedMode_flicker" "period ?l1 = period l" "minBright ?l1 = minBright l"
    "maxBright ?l1 = maxBright l" "Led_delta now ?l1 = Led_delta now l"
    using assms(1) Led_updates_config [of pre l h now] by simp_all
  from assms(3) have o: "outside_window now l" and op: "\<forall>t \<in> set pre. outside_window t l"
    by simp_all
  have o1: "outside_window now ?l1"
    using o by (simp only: outside_window_updates)
  have p1: "0 \<le> period ?l1"
    using assms(2) by (simp only: cfg)
  have hold: "Led_update now ?l1 ?h1 = (?l1, ?h1)"
    if "\<not> (0 \<le> Led_delta now l \<and> c_rem (Led_delta now l) 29 = 0)"
    using cfg(1) p1 o1 that by (intro flicker_hold) (simp_all only: cfg, simp_all)
  have a: "lastValue (fst (Led_updates (pre @ [now]) l h)) \<noteq> lastValue ?l1
            \<longrightarrow> 0 \<le> Led_delta now l \<and> c_rem (Led_delta now l) 29 = 0"
  proof (rule impI, rule ccontr)
    assume change: "lastValue (fst (Led_updates (pre @ [now]) l h)) \<noteq> lastValue ?l1"
    assume "\<not> (0 \<le> Led_delta now l \<and> c_rem (Led_delta now l) 29 = 0)"
    then have "Led_update now ?l1 ?h1 = (?l1, ?h1)" by (rule hold)
    then have "lastValue (fst (Led_updates (pre @ [now]) l h)) = lastValue ?l1"
      by (simp only: Led_updates_snoc fst_conv)
    with change show False by simp
  qed
  have b: "pwm (snd (Led_updates (pre @ [now]) l h)) \<noteq> pwm ?h1
            \<longrightarrow> 0 \<le> Led_delta now l \<and> c_rem (Led_delta now l) 29 = 0"
  proof (rule impI, rule ccontr)
    assume change: "pwm (snd (Led_updates (pre @ [now]) l h)) \<noteq> pwm ?h1"
    assume "\<not> (0 \<le> Led_delta now l \<and> c_rem (Led_delta now l) 29 = 0)"
    then have "Led_update now ?l1 ?h1 = (?l1, ?h1)" by (rule hold)
    then have "pwm (snd (Led_updates (pre @ [now]) l h)) = pwm ?h1"
      by (simp only: Led_updates_snoc snd_conv)
    with change show False by simp
  qed
  have c: "minBright l \<le> lastValue (fst (Led_updates (pre @ [now]) l h))
              \<and> lastValue (fst (Led_updates (pre @ [now]) l h)) < maxBright l"
    if s: "0 \<le> Led_delta now l" "c_rem (Led_delta now l) 29 = 0" "minBright l < maxBright l"
  proof -
    have "lastValue (fst (Led_update now ?l1 ?h1))
        = fst (random_range (minBright ?l1) (maxBright ?l1) ?h1)"
      using cfg(1) p1 o1 s(1,2) by (intro flicker_sample) (simp_all only: cfg)
    then show ?thesis
      using random_range_bounds [OF s(3), of ?h1]
      by (simp only: Led_updates_snoc cfg)
  qed
  have d: "minBright l \<le> lastValue (fst (Led_updates pre l h))
              \<and> lastValue (fst (Led_updates pre l h)) < maxBright l
              \<and> minBright l \<le> lastValue (fst (Led_updates (pre @ [now]) l h))
              \<and> lastValue (fst (Led_updates (pre @ [now]) l h)) < maxBright l"
    if r: "minBright l \<le> lastValue l" "lastValue l < maxBright l"
    using flicker_updates_range [OF assms(1,2) op r, of h]
      flicker_updates_range [OF assms(1,2,3) r, of h]
    by blast
  from a b c d show ?thesis by blast
qed

theorem C7_flicker_changes_and_range_witness:
  "mode led_flicker = LedMode_flicker \<and> 0 \<le> period led_flicker
   \<and> outside_window 2899 led_flicker \<and> outside_window 2900 led_flicker
   \<and> lastValue (fst (Led_updates [2899] led_flicker hw0)) = 10
   \<and> lastValue (fst (Led_updates ([2899] @ [2900]) led_flicker hw0)) = 7
   \<and> pwm (snd (Led_updates ([2899] @ [2900]) led_flicker hw0))
        \<noteq> pwm (snd (Led_updates [2899] led_flicker hw0))
   \<and> 0 \<le> Led_delta 2900 led_flicker \<and> c_rem (Led_delta 2900 led_flicker) 29 = 0
   \<and> minBright led_flicker < maxBright led_flicker
   \<and> minBright led_flicker \<le> lastValue led_flicker
   \<and> lastValue led_flicker < maxBright led_flicker
   \<and> minBright led_flicker \<le> lastValue (fst (Led_updates ([2899] @ [2900]) led_flicker hw0))
   \<and> lastValue (fst (Led_updates ([2899] @ [2900]) led_flicker hw0)) < maxBright led_flicker"
proof -
  have m: "mode led_flicker = LedMode_flicker" "0 \<le> period led_flicker"
    by (simp_all add: led_flicker_def Led_new_def)
  have p: "minBright led_flicker \<le> lastValue led_flicker \<and> lastValue led_flicker < maxBright led_flicker"
    "minBright led_flicker < maxBright led_flicker"
    by (simp_all add: led_flicker_def Led_new_def)
  have d: "Led_delta 2899 led_flicker = 2899" "Led_delta 2900 led_flicker = 2900"
    by (simp_all add: Led_delta_def led_flicker_def Led_new_def to_int_def)
  have o: "\<forall>t \<in> set ([2899] @ [2900]). outside_window t led_flicker"
    by (simp add: outside_window_def d) (simp add: led_flicker_def Led_new_def)
  have r: "c_rem 2899 29 \<noteq> 0" "c_rem 2900 29 = 0"
    by (simp_all add: c_rem_def)
  have u1: "Led_updates [2899] led_flicker hw0 = (led_flicker, hw0)"
    using flicker_hold [of led_flicker 2899 hw0] m o r by (simp add: d)
  have w: "Led_waveform 2900 led_flicker hw0 = (7, hw0\<lparr>drawn := 1\<rparr>)"
    by (simp add: Led_waveform_def m r random_range_def random_max_def random_raw_def c_rem_def)
       (simp add: led_flicker_def Led_new_def hw0_def c_rem_def)
  have s: "Led_smooth 2900 led_flicker 7 = 7"
    by (rule Led_smooth_after) (simp_all add: led_flicker_def Led_new_def)
  have u2: "Led_update 2900 led_flicker hw0
      = (led_flicker\<lparr>lastValue := 7\<rparr>, analogWrite 3 7 (hw0\<lparr>drawn := 1\<rparr>))"
    by (simp add: Led_update_def d w s) (simp add: led_flicker_def Led_new_def)
  have v1: "lastValue (fst (Led_updates [2899] led_flicker hw0)) = 10"
    by (simp only: u1 fst_conv) (simp add: led_flicker_def Led_new_def)
  have v2: "lastValue (fst (Led_updates ([2899] @ [2900]) led_flicker hw0)) = 7"
    by (simp only: Led_updates_snoc u1 fst_conv snd_conv u2) simp
  have c2: "pwm (snd (Led_updates ([2899] @ [2900]) led_flicker hw0))
        \<noteq> pwm (snd (Led_updates [2899] led_flicker hw0))"
    by (simp only: Led_updates_snoc u1 fst_conv snd_conv u2) (simp add: analogWrite_def)
  from v1 v2 have c1: "lastValue (fst (Led_updates ([2899] @ [2900]) led_flicker hw0))
        \<noteq> lastValue (fst (Led_updates [2899] led_flicker hw0))"
    by simp
  from C7_flicker_changes_and_range [OF m o, of hw0] c1 p
  have "0 \<le> Led_delta 2900 led_flicker \<and> c_rem (Led_delta 2900 led_flicker) 29 = 0
      \<and> minBright led_flicker \<le> lastValue (fst (Led_updates ([2899] @ [2900]) led_flicker hw0))
      \<and> lastValue (fst (Led_updates ([2899] @ [2900]) led_flicker hw0)) < maxBright led_flicker"
    by blast
  moreover from o have "outside_window 2899 led_flicker \<and> outside_window 2900 led_flicker"
    by simp
  ultimately show ?thesis using m p v1 v2 c2 by blast
qed

text \<open>
  C7 as stated fails where the flicker starts from a value outside its range: the
  headlights enter the Failing state at 255 and \<^verbatim>\<open>startFlicker(0, 32, ...)\<close> leaves
  \<open>lastValue\<close> alone, so every update that is not a sampling instant holds 255. The
  update below is past the smoothing window, so no blend is computed.
\<close>

theorem C7_flicker_holds_out_of_range_counterexample:
  "mode led_headlights = LedMode_flicker
   \<and> minBright led_headlights = 0 \<and> maxBright led_headlights = 32
   \<and> Led_delta 2001 led_headlights = 1001
   \<and> period led_headlights \<le> 2 * Led_delta 2001 led_headlights
   \<and> lastValue (fst (Led_update 2001 led_headlights hw0)) = 255
   \<and> \<not> (minBright led_headlights \<le> lastValue (fst (Led_update 2001 led_headlights hw0))
          \<and> lastValue (fst (Led_update 2001 led_headlights hw0)) < maxBright led_headlights)"
proof -
  have f: "mode led_headlights = LedMode_flicker" "minBright led_headlights = 0"
    "maxBright led_headlights = 32" "lastValue led_headlights = 255"
    "period led_headlights = 500"
    by (simp_all add: led_headlights_def Led_startFlicker_def Led_new_def)
  have d: "Led_delta 2001 led_headlights = 1001"
    by (simp add: Led_delta_def led_headlights_def Led_startFlicker_def Led_new_def to_int_def)
  have r: "c_rem 1001 29 \<noteq> 0"
    by (simp add: c_rem_def)
  have "Led_update 2001 led_headlights hw0 = (led_headlights, hw0)"
    by (rule flicker_hold) (simp_all add: f d r outside_window_def)
  with f d show ?thesis by simp
qed

section \<open>The waveform engine: switching modes\<close>
















section \<open>The waveform engine: the start time of a mode\<close>

lemma startTime_recorded:
  "startTime (fst (Led_off l h)) = millis h"
  "startTime (fst (Led_on b l h)) = millis h"
  "startTime (fst (Led_rampTo mx pd d l h)) = millis h"
  "startTime (fst (Led_startSinusoid pd mn mx ph l h)) = millis h"
  by (simp_all add: Led_off_def Led_on_def Led_rampTo_def Led_startSinusoid_def Let_def)

text \<open>
  C8. The claim has every mode-setting operation record the current time as
  \<open>startTime\<close>. \<open>off\<close>, \<open>on\<close>, \<open>rampTo\<close> and \<open>startSinusoid\<close> do (lemma
  \<open>startTime_recorded\<close>); \<open>startFlicker\<close> has no such assignment and keeps the start
  time of the previous mode, so that its delay counts from there: called at clock 5000
  on a channel started at 0 with a delay of 100, the flicker is already 4900 ms past
  its activation.
\<close>

theorem C8_startFlicker_keeps_old_startTime:
  "startTime (fst (Led_startFlicker mn mx d l h)) = startTime l
   \<and> startTime (fst (Led_startFlicker 0 128 100 (Led_new 3) (hw0\<lparr>clock := 5000\<rparr>)))
        \<noteq> millis (hw0\<lparr>clock := 5000\<rparr>)
   \<and> Led_delta (millis (hw0\<lparr>clock := 5000\<rparr>))
        (fst (Led_startFlicker 0 128 100 (Led_new 3) (hw0\<lparr>clock := 5000\<rparr>))) = 4900"
  by (simp add: Led_startFlicker_def Led_new_def millis_def hw0_def Led_delta_def to_int_def)

section \<open>The waveform engine: the sinusoid\<close>

lemma to_int_range: "- 32768 \<le> to_int x \<and> to_int x < 32768"
proof -
  have "0 \<le> (x + 32768) mod 65536" and "(x + 32768) mod 65536 < 65536"
    by simp_all
  then show ?thesis by (simp add: to_int_def)
qed

lemma to_int_Led_delta: "to_int (Led_delta now l) = Led_delta now l"
  using to_int_range [of "uint (now - startTime l - word_of_int (delay l))"]
  by (simp only: Led_delta_def to_int_id)

lemma waveform_sinusoid:
  "mode l = LedMode_sinusoid \<Longrightarrow>
   fst (Led_waveform d l h) =
     minBright l + c_int (real_of_int (maxBright l - minBright l)
       * ((cos (2 * pi * (real_of_int (c_rem (to_int (d + phase l)) (period l))
                            / real_of_int (period l - 1) - 1 / 2)) + 1) / 2))"
  by (simp add: Led_waveform_def Let_def)

lemma sinusoid_peak:
  assumes "mode l = LedMode_sinusoid" and "1 < period l"
    and "2 * c_rem (to_int (d + phase l)) (period l) = period l - 1"
  shows "fst (Led_waveform d l h) = maxBright l"
proof -
  from assms(3)
  have "real_of_int (2 * c_rem (to_int (d + phase l)) (period l)) = real_of_int (period l - 1)"
    by (simp only:)
  with assms(2)
  have "real_of_int (c_rem (to_int (d + phase l)) (period l)) / real_of_int (period l - 1) = 1 / 2"
    by (simp add: field_simps)
  then show ?thesis using assms(1) by (simp add: waveform_sinusoid)
qed

lemma sinusoid_trough:
  assumes "mode l = LedMode_sinusoid" and "c_rem (to_int (d + phase l)) (period l) = 0"
  shows "fst (Led_waveform d l h) = minBright l"
  using assms by (simp add: waveform_sinusoid c_int_def)

lemma c_rem_add_period:
  assumes "0 < p" and "0 \<le> a"
  shows "c_rem (a + p) p = c_rem a p"
  using assms by (simp add: c_rem_nonneg)

text \<open>One period later, as long as the 16-bit sum \<open>delta + phase\<close> neither is negative nor wraps.\<close>

lemma sinusoid_periodic:
  assumes "mode l = LedMode_sinusoid" and "0 < period l" and "0 \<le> d + phase l"
    and "d + period l + phase l \<le> 32767"
  shows "fst (Led_waveform (d + period l) l h) = fst (Led_waveform d l h')"
proof -
  from assms have a: "to_int (d + phase l) = d + phase l"
    by (intro to_int_id) simp_all
  from assms have b: "to_int (d + period l + phase l) = d + phase l + period l"
    using to_int_id [of "d + period l + phase l"] by simp
  have "c_rem (to_int (d + period l + phase l)) (period l) = c_rem (d + phase l + period l) (period l)"
    by (simp only: b)
  also have "\<dots> = c_rem (d + phase l) (period l)"
    using assms(2,3) by (rule c_rem_add_period)
  finally show ?thesis using assms(1) by (simp add: waveform_sinusoid a)
qed

text \<open>Bounds on the cosine of a small angle, from \<open>cos (2 * x) = 1 - 2 * (sin x)\<^sup>2\<close>.\<close>

lemma cos_small:
  fixes x :: real
  assumes "0 < x" and "x < 2"
  shows "1 - x\<^sup>2 / 2 \<le> cos x" and "cos x < 1"
proof -
  have c: "cos x = 1 - 2 * (sin (x / 2))\<^sup>2"
    using cos_double_sin [of "x / 2"] by simp
  have "\<bar>sin (x / 2)\<bar> \<le> \<bar>x / 2\<bar>" by (rule abs_sin_x_le_abs_x)
  then have "(sin (x / 2))\<^sup>2 \<le> (x / 2)\<^sup>2" by (simp only: abs_le_square_iff)
  then have "2 * (sin (x / 2))\<^sup>2 \<le> x\<^sup>2 / 2" by (simp add: power_divide)
  with c show "1 - x\<^sup>2 / 2 \<le> cos x" by simp
  from assms have "0 < sin (x / 2)" by (intro sin_gt_zero_02) simp_all
  then have "0 < (sin (x / 2))\<^sup>2" by simp
  with c show "cos x < 1" by simp
qed

lemma c_int_unique:
  assumes "real_of_int n \<le> x" and "x < real_of_int n + 1" and "0 \<le> n"
  shows "c_int x = n"
proof -
  from assms have "0 \<le> x" by simp
  moreover from assms have "\<lfloor>x\<rfloor> = n" by (intro floor_unique)
  ultimately show ?thesis by (simp add: c_int_def)
qed

lemma led_full_power_fields:
  "mode led_full_power = LedMode_sinusoid" "period led_full_power = 60"
  "phase led_full_power = 0" "minBright led_full_power = 200" "maxBright led_full_power = 255"
  "delay led_full_power = 0" "startTime led_full_power = 0"
  by (simp_all add: led_full_power_def Led_startSinusoid_def Let_def Led_new_def millis_def hw0_def)

lemma full_power_at_half_period:
  "fst (Led_waveform 30 led_full_power h) = 254"
proof -
  let ?c = "cos (pi / 59)"
  have pos: "0 < pi / 59" by simp
  have small: "pi / 59 < 4 / 59" using pi_less_4 by simp
  then have lt2: "pi / 59 < 2" by simp
  have "(pi / 59)\<^sup>2 \<le> (4 / 59)\<^sup>2"
    using pos small by (intro power_mono) simp_all
  then have "1 - (4 / 59)\<^sup>2 / 2 \<le> 1 - (pi / 59)\<^sup>2 / 2" by simp
  also have "\<dots> \<le> ?c" using pos lt2 by (rule cos_small(1))
  finally have lo: "3473 / 3481 \<le> ?c" by (simp add: power2_eq_square)
  have hi: "?c < 1" using pos lt2 by (rule cos_small(2))
  have "real_of_int 54 \<le> 55 * ((?c + 1) / 2)" using lo by simp
  moreover have "55 * ((?c + 1) / 2) < real_of_int 54 + 1" using hi by simp
  ultimately have "c_int (55 * ((?c + 1) / 2)) = 54"
    by (rule c_int_unique) simp
  moreover have "c_rem (to_int 30) 60 = 30" by (simp add: c_rem_def to_int_def)
  moreover have "2 * pi * (30 / 59 - 1 / 2) = pi / 59" by simp
  ultimately show ?thesis
    by (simp add: waveform_sinusoid led_full_power_fields)
qed

text \<open>
  C6, as amended. In Sinusoid mode with a period above 1, after the smoothing window,
  with \<open>delta + phase\<close> the 16-bit sum that \<open>update\<close> computes: the output equals
  \<open>maxBright\<close> where \<open>(delta + phase) % period\<close> is \<open>(period - 1) / 2\<close>, the midpoint of
  the \<open>period - 1\<close> steps the waveform is stretched over; it equals \<open>minBright\<close> where
  \<open>(delta + phase) % period\<close> is 0, in particular where \<open>delta % period\<close> is 0 and the
  phase is 0; and it is the same one period later, whatever \<open>lastValue\<close> was, as long
  as \<open>delta + phase\<close> is not negative and \<open>delta + period + phase\<close> does not exceed 32767.
\<close>

theorem C6_sinusoid_shape:
  assumes "mode l = LedMode_sinusoid" and "1 < period l"
    and "0 \<le> Led_delta now l" and "period l \<le> 2 * Led_delta now l"
  shows "(2 * c_rem (to_int (Led_delta now l + phase l)) (period l) = period l - 1
            \<longrightarrow> lastValue (fst (Led_update now l h)) = maxBright l)
     \<and> (c_rem (to_int (Led_delta now l + phase l)) (period l) = 0
            \<longrightarrow> lastValue (fst (Led_update now l h)) = minBright l)
     \<and> (phase l = 0 \<and> c_rem (Led_delta now l) (period l) = 0
            \<longrightarrow> lastValue (fst (Led_update now l h)) = minBright l)
     \<and> (0 \<le> Led_delta now l + phase l \<and> Led_delta now l + period l + phase l \<le> 32767
          \<and> Led_delta now' l = Led_delta now l + period l
            \<longrightarrow> lastValue (fst (Led_update now' (l\<lparr>lastValue := x\<rparr>) h'))
                = lastValue (fst (Led_update now l h)))"
proof -
  let ?d = "Led_delta now l"
  have v: "lastValue (fst (Led_update now l h)) = fst (Led_waveform ?d l h)"
    using assms by (intro update_after_smoothing) simp_all
  have peak: "2 * c_rem (to_int (?d + phase l)) (period l) = period l - 1
            \<longrightarrow> lastValue (fst (Led_update now l h)) = maxBright l"
    using assms(1,2) by (simp add: v sinusoid_peak)
  have trough: "c_rem (to_int (?d + phase l)) (period l) = 0
            \<longrightarrow> lastValue (fst (Led_update now l h)) = minBright l"
    using assms(1) by (simp add: v sinusoid_trough)
  have trough0: "phase l = 0 \<and> c_rem ?d (period l) = 0
            \<longrightarrow> lastValue (fst (Led_update now l h)) = minBright l"
    using assms(1) by (simp add: v sinusoid_trough to_int_Led_delta)
  have periodic: "lastValue (fst (Led_update now' (l\<lparr>lastValue := x\<rparr>) h'))
                = lastValue (fst (Led_update now l h))"
    if nn: "0 \<le> ?d + phase l" and fits: "?d + period l + phase l \<le> 32767"
      and later: "Led_delta now' l = ?d + period l"
  proof -
    let ?l' = "l\<lparr>lastValue := x\<rparr>"
    have d': "Led_delta now' ?l' = ?d + period l"
      using later by (simp add: Led_delta_def)
    have "lastValue (fst (Led_update now' ?l' h')) = fst (Led_waveform (Led_delta now' ?l') ?l' h')"
      using assms d' by (intro update_after_smoothing) simp_all
    also have "\<dots> = fst (Led_waveform (?d + period l) l h')"
      using assms(1) by (simp add: d' waveform_sinusoid)
    also have "\<dots> = fst (Led_waveform ?d l h)"
      using assms(1,2) nn fits by (intro sinusoid_periodic) simp_all
    finally show ?thesis by (simp only: v)
  qed
  from peak trough trough0 periodic show ?thesis by blast
qed

theorem C6_sinusoid_shape_witness:
  "mode led_odd_period = LedMode_sinusoid \<and> 1 < period led_odd_period
   \<and> Led_delta 91 led_odd_period = 91 \<and> period led_odd_period \<le> 2 * 91
   \<and> 2 * c_rem (to_int (91 + phase led_odd_period)) (period led_odd_period)
        = period led_odd_period - 1
   \<and> lastValue (fst (Led_update 91 led_odd_period hw0)) = 255
   \<and> Led_delta 122 led_odd_period = 122 \<and> period led_odd_period \<le> 2 * 122
   \<and> phase led_odd_period = 0 \<and> c_rem 122 (period led_odd_period) = 0
   \<and> lastValue (fst (Led_update 122 led_odd_period hw0)) = 200
   \<and> 0 \<le> 91 + phase led_odd_period \<and> 91 + period led_odd_period + phase led_odd_period \<le> 32767
   \<and> Led_delta 152 led_odd_period = 91 + period led_odd_period
   \<and> lastValue (fst (Led_update 152 (led_odd_period\<lparr>lastValue := 200\<rparr>) hw0)) = 255"
proof -
  have f: "mode led_odd_period = LedMode_sinusoid" "1 < period led_odd_period"
    "period led_odd_period = 61" "phase led_odd_period = 0"
    "maxBright led_odd_period = 255" "minBright led_odd_period = 200"
    by (simp_all add: led_odd_period_def Led_new_def)
  have d: "Led_delta 91 led_odd_period = 91" "Led_delta 122 led_odd_period = 122"
    "Led_delta 152 led_odd_period = 152"
    by (simp_all add: Led_delta_def led_odd_period_def Led_new_def to_int_def)
  have r: "c_rem (to_int 91) 61 = 30" "c_rem 122 61 = 0"
    by (simp_all add: c_rem_def to_int_def)
  from C6_sinusoid_shape [OF f(1,2), of 91 hw0 152 200 hw0] f d r
  have a: "lastValue (fst (Led_update 91 led_odd_period hw0)) = 255
      \<and> lastValue (fst (Led_update 152 (led_odd_period\<lparr>lastValue := 200\<rparr>) hw0)) = 255"
    by simp
  from C6_sinusoid_shape [OF f(1,2), of 122 hw0 152 200 hw0] f d r
  have b: "lastValue (fst (Led_update 122 led_odd_period hw0)) = 200"
    by simp
  from a b f d r show ?thesis by simp
qed

text \<open>
  C6 as stated fails at the half-period point of an even period: the engine at full
  power (period 60, 200 to 255, phase 0), polled 30 ms after activation, is past its
  smoothing window and at \<open>(delta + phase) % period = period / 2\<close>, yet the output is
  254, since \<open>t = 30 / 59\<close> is not \<open>1 / 2\<close>.
\<close>

theorem C6_half_period_counterexample:
  "mode led_full_power = LedMode_sinusoid
   \<and> Led_delta 30 led_full_power = 30
   \<and> period led_full_power \<le> 2 * Led_delta 30 led_full_power
   \<and> 2 * c_rem (to_int (Led_delta 30 led_full_power + phase led_full_power))
          (period led_full_power) = period led_full_power
   \<and> maxBright led_full_power = 255
   \<and> lastValue (fst (Led_update 30 led_full_power hw0)) = 254
   \<and> \<not> lastValue (fst (Led_update 30 led_full_power hw0)) = maxBright led_full_power"
proof -
  have d: "Led_delta 30 led_full_power = 30"
    by (simp add: Led_delta_def led_full_power_fields to_int_def)
  have r: "c_rem (to_int 30) 60 = 30" by (simp add: c_rem_def to_int_def)
  have "lastValue (fst (Led_update 30 led_full_power hw0))
        = fst (Led_waveform (Led_delta 30 led_full_power) led_full_power hw0)"
    by (rule update_after_smoothing) (simp_all add: d led_full_power_fields)
  then have v: "lastValue (fst (Led_update 30 led_full_power hw0)) = 254"
    by (simp add: d full_power_at_half_period)
  show ?thesis by (simp add: d r v led_full_power_fields)
qed

section \<open>The waveform engine: why the period and the phase are restricted\<close>

text \<open>
  With a negative period the smoothing factor exceeds 1 and grows with \<open>delta\<close>: the
  cross-fade extrapolates, and the output leaves \<open>[0,255]\<close>.
\<close>

lemma negative_period_leaves_byte:
  "lastValue (fst (Led_update 10 led_negative_period hw0)) = 1100"
proof -
  have d: "Led_delta 10 led_negative_period = 10"
    by (simp add: Led_delta_def led_negative_period_def Led_new_def to_int_def)
  have w: "Led_waveform 10 led_negative_period hw0 = (0, hw0)"
    by (simp add: Led_waveform_def led_negative_period_def Led_new_def)
  have "Led_smooth 10 led_negative_period 0 = c_int (real_of_int 1100)"
    by (simp add: Led_smooth_def Let_def led_negative_period_def Led_new_def)
  then have s: "Led_smooth 10 led_negative_period 0 = 1100"
    by (simp only: c_int_of_int)
  show ?thesis by (simp add: Led_update_def d w s)
qed

text \<open>
  While \<open>delta + phase\<close> is negative the remainder is negative as well, and the
  waveform one period later is a different one: 0 at \<open>delta = 2\<close>, 4 at \<open>delta = 6\<close>
  (from 4.5, so that rounding does not matter).
\<close>

lemma early_phase_not_periodic:
  "lastValue (fst (Led_update 2 led_early_phase hw0)) = 0
   \<and> lastValue (fst (Led_update 6 led_early_phase hw0)) = 4"
proof -
  have f: "mode led_early_phase = LedMode_sinusoid" "period led_early_phase = 4"
    "phase led_early_phase = - 5" "minBright led_early_phase = 0" "maxBright led_early_phase = 6"
    by (simp_all add: led_early_phase_def Led_new_def)
  have d: "Led_delta 2 led_early_phase = 2" "Led_delta 6 led_early_phase = 6"
    by (simp_all add: Led_delta_def led_early_phase_def Led_new_def to_int_def)
  have r: "c_rem (to_int (- 3)) 4 = - 3" "c_rem (to_int 1) 4 = 1"
    by (simp_all add: c_rem_def to_int_def)
  have v2: "lastValue (fst (Led_update 2 led_early_phase hw0))
      = fst (Led_waveform 2 led_early_phase hw0)"
    using update_after_smoothing [of 2 led_early_phase hw0] by (simp add: d f)
  have v6: "lastValue (fst (Led_update 6 led_early_phase hw0))
      = fst (Led_waveform 6 led_early_phase hw0)"
    using update_after_smoothing [of 6 led_early_phase hw0] by (simp add: d f)
  have "2 * pi * (- 1 - 1 / 2) = - (3 * pi)" by simp
  then have c2: "cos (2 * pi * (- 1 - 1 / 2)) = - 1"
    by (simp only: cos_minus cos_npi_numeral) simp
  have "2 * pi * (1 / 3 - 1 / 2) = - (pi / 3)" by simp
  then have c6: "cos (2 * pi * (1 / 3 - 1 / 2)) = 1 / 2"
    by (simp only: cos_minus cos_60)
  have w2: "fst (Led_waveform 2 led_early_phase hw0) = 0"
    using c2 by (simp add: waveform_sinusoid f r c_int_def)
  have "real_of_int (6 - 0) * ((cos (2 * pi * (1 / 3 - 1 / 2)) + 1) / 2) = 9 / 2"
    by (simp only: c6) simp
  moreover have "c_int (9 / 2) = 4"
    by (rule c_int_unique) simp_all
  ultimately have "c_int (real_of_int (6 - 0) * ((cos (2 * pi * (1 / 3 - 1 / 2)) + 1) / 2)) = 4"
    by (simp only:)
  then have w6: "fst (Led_waveform 6 led_early_phase hw0) = 4"
    by (simp add: waveform_sinusoid f r)
  show ?thesis by (simp add: v2 v6 w2 w6)
qed

text \<open>
  Where the 16-bit sum \<open>delta + phase\<close> wraps, the remainder changes sign as well: the
  second engine channel when idling (period 2000, phase 666), 30500 ms and 32500 ms
  after activation.
\<close>

lemma idling_phase_sum_wraps:
  "c_rem (to_int (30500 + 666)) 2000 = 1166
   \<and> to_int (32500 + 666) = - 32370
   \<and> c_rem (to_int (32500 + 666)) 2000 = - 370"
  by (simp add: to_int_def c_rem_def)

end
